theory Spec2Isabelle
  imports
    Complex_Main
    "HOL-Library.Word"
    "HOL-Library.Multiset"
    "HOL-Library.AList"
    "HOL-Library.Sublist"
    "HOL-Library.List_Lexorder"
    "HOL-Library.Char_ord"
    "HOL-Library.Monad_Syntax"
begin

section \<open>The game library on disk\<close>

text \<open>
  The server keeps no index: the library is the directory \<open>GAMES_DIR\<close>, one sub-directory
  per game. A directory is modelled by its entries in the order \<open>Deno.readDir\<close> yields
  them; a file by its bytes. Paths are lists of components below \<open>GAMES_DIR\<close>.
  The state of the server is \<open>dir option\<close>: \<open>None\<close> when \<open>GAMES_DIR\<close> itself is gone.
  Symbolic links and Windows path separators are outside the model.
\<close>

type_synonym bytes = "8 word list"

datatype node = File bytes | Dir "(string \<times> node) list"

type_synonym dir = "(string \<times> node) list"

datatype exn = NotFound | IsADirectory | NotADirectory | ExtractFailed | CopyFailed | BadBody | TypeError

fun isDirectory :: "node \<Rightarrow> bool" where
  "isDirectory (Dir _) = True"
| "isDirectory (File _) = False"

fun isFile :: "node \<Rightarrow> bool" where
  "isFile (File _) = True"
| "isFile (Dir _) = False"

text \<open>\<open>Deno.stat\<close> of a path below a directory; \<open>None\<close> is the thrown error.\<close>

fun stat :: "dir \<Rightarrow> string list \<Rightarrow> node option" where
  "stat d [] = Some (Dir d)"
| "stat d (p # ps) =
     (case map_of d p of
        None \<Rightarrow> None
      | Some (File b) \<Rightarrow> (if ps = [] then Some (File b) else None)
      | Some (Dir k) \<Rightarrow> stat k ps)"

definition statGames :: "dir option \<Rightarrow> string list \<Rightarrow> node option" where
  "statGames st p = (case st of None \<Rightarrow> None | Some d \<Rightarrow> stat d p)"

text \<open>\<open>Deno.writeFile\<close>: creates or truncates a regular file; fails on a directory and
  when the parent is missing.\<close>

fun writeFile :: "dir \<Rightarrow> string list \<Rightarrow> bytes \<Rightarrow> exn + dir" where
  "writeFile d [] b = Inl IsADirectory"
| "writeFile d [n] b =
     (case map_of d n of
        Some (Dir k) \<Rightarrow> Inl IsADirectory
      | _ \<Rightarrow> Inr (AList.update n (File b) d))"
| "writeFile d (p # ps) b =
     (case map_of d p of
        None \<Rightarrow> Inl NotFound
      | Some (File c) \<Rightarrow> Inl NotADirectory
      | Some (Dir k) \<Rightarrow>
          (case writeFile k ps b of
             Inl e \<Rightarrow> Inl e
           | Inr k' \<Rightarrow> Inr (AList.update p (Dir k') d)))"

text \<open>\<open>Deno.remove(target, { recursive: true })\<close> for a target that is \<open>GAMES_DIR\<close> itself
  (the empty path) or one of its entries.\<close>

definition removeRecursive :: "dir option \<Rightarrow> string list \<Rightarrow> exn + dir option" where
  "removeRecursive st p =
     (case st of
        None \<Rightarrow> Inl NotFound
      | Some d \<Rightarrow>
          (case p of
             [] \<Rightarrow> Inr None
           | [n] \<Rightarrow> (case map_of d n of None \<Rightarrow> Inl NotFound | Some e \<Rightarrow> Inr (Some (AList.delete n d)))
           | _ \<Rightarrow> Inl NotFound))"

text \<open>\<open>ensureDir(join(GAMES_DIR, id))\<close>: creates the directory when missing, fails when the
  name is taken by a file.\<close>

definition ensureDir :: "dir option \<Rightarrow> string list \<Rightarrow> exn + dir option" where
  "ensureDir st p =
     (case p of
        [] \<Rightarrow> Inr (Some (case st of None \<Rightarrow> [] | Some d \<Rightarrow> d))
      | [n] \<Rightarrow>
          (let d = (case st of None \<Rightarrow> [] | Some d \<Rightarrow> d) in
           case map_of d n of
             None \<Rightarrow> Inr (Some (AList.update n (Dir []) d))
           | Some (Dir k) \<Rightarrow> Inr (Some d)
           | Some (File b) \<Rightarrow> Inl NotADirectory)
      | _ \<Rightarrow> Inl NotFound)"

subsection \<open>listGames\<close>

record GameEntry =
  id' :: string
  name :: string
  path :: "string list"
  urlPath :: string
  hasThumbnail :: bool

text \<open>\<open>id.replace(/[-_]/g, " ")\<close>\<close>

definition displayName :: "string \<Rightarrow> string" where
  "displayName i = map (\<lambda>c. if c = CHR ''-'' \<or> c = CHR ''_'' then CHR '' '' else c) i"

text \<open>The \<open>try { stat } catch { hasThumbnail = false }\<close> block.\<close>

definition thumbnailPresent :: "dir \<Rightarrow> string \<Rightarrow> bool" where
  "thumbnailPresent d i =
     (case stat d [i, ''thumbnail.png''] of
        Some n \<Rightarrow> isFile n
      | None \<Rightarrow> False)"

definition gameEntry :: "dir \<Rightarrow> string \<Rightarrow> GameEntry" where
  "gameEntry d i =
     \<lparr> id' = i, name = displayName i, path = [i],
       urlPath = ''/games/'' @ i @ ''/'', hasThumbnail = thumbnailPresent d i \<rparr>"

text \<open>The \<open>for await (const dirEntry of Deno.readDir(GAMES_DIR))\<close> loop.\<close>

fun scanDir :: "dir \<Rightarrow> (string \<times> node) list \<Rightarrow> GameEntry list" where
  "scanDir d [] = []"
| "scanDir d ((n, e) # rest) =
     (if \<not> isDirectory e then scanDir d rest
      else gameEntry d n # scanDir d rest)"

text \<open>\<open>Array.prototype.sort\<close> with a comparator returning a negative, zero or positive
  number; the sort is stable.\<close>

fun insertBy :: "('a \<Rightarrow> 'a \<Rightarrow> int) \<Rightarrow> 'a \<Rightarrow> 'a list \<Rightarrow> 'a list" where
  "insertBy cmp x [] = [x]"
| "insertBy cmp x (y # ys) =
     (if cmp x y \<le> 0 then x # y # ys else y # insertBy cmp x ys)"

definition sortBy :: "('a \<Rightarrow> 'a \<Rightarrow> int) \<Rightarrow> 'a list \<Rightarrow> 'a list" where
  "sortBy cmp xs = foldr (insertBy cmp) xs []"

text \<open>\<open>listGames\<close>; the parameter \<open>lc\<close> is \<open>String.prototype.localeCompare\<close>.\<close>

definition listGames :: "(string \<Rightarrow> string \<Rightarrow> int) \<Rightarrow> dir option \<Rightarrow> exn + GameEntry list" where
  "listGames lc st =
     (case st of
        None \<Rightarrow> Inl NotFound
      | Some d \<Rightarrow> Inr (sortBy (\<lambda>a b. lc (name a) (name b)) (scanDir d d)))"

text \<open>A comparator that is consistent in the sense of the language standard.\<close>

definition consistentCompare :: "(string \<Rightarrow> string \<Rightarrow> int) \<Rightarrow> bool" where
  "consistentCompare lc \<longleftrightarrow>
     (\<forall>a b. lc a b \<le> 0 \<or> lc b a \<le> 0) \<and>
     (\<forall>a b c. lc a b \<le> 0 \<longrightarrow> lc b c \<le> 0 \<longrightarrow> lc a c \<le> 0)"

text \<open>Code-unit order, a consistent comparator used for concrete runs.\<close>

definition compareCodeUnits :: "string \<Rightarrow> string \<Rightarrow> int" where
  "compareCodeUnits a b = (if a < b then - 1 else if a = b then 0 else 1)"

definition sampleLibrary :: dir where
  "sampleLibrary =
     [(''space-runner'', Dir [(''index.html'', File [60, 33]), (''thumbnail.png'', File [137, 80])]),
      (''README.md'', File [35]),
      (''puzzle_box'', Dir [(''index.html'', File []), (''thumbnail.png'', Dir [])])]"

section \<open>The HTTP server\<close>

subsection \<open>String helpers\<close>

text \<open>Strings are lists of 8-bit characters; the helpers below agree with the JavaScript
  built-ins on ASCII text.\<close>

definition toLowerChar :: "char \<Rightarrow> char" where
  "toLowerChar c =
     (case map_of (zip ''ABCDEFGHIJKLMNOPQRSTUVWXYZ'' ''abcdefghijklmnopqrstuvwxyz'') c of
        Some l \<Rightarrow> l
      | None \<Rightarrow> c)"

definition toLowerCase :: "string \<Rightarrow> string" where
  "toLowerCase s = map toLowerChar s"

text \<open>\<open>s.split(sep)\<close> for a one-character separator.\<close>

fun splitOn :: "char \<Rightarrow> string \<Rightarrow> string list" where
  "splitOn c [] = [[]]"
| "splitOn c (x # xs) =
     (if x = c then [] # splitOn c xs
      else (case splitOn c xs of
              w # ws \<Rightarrow> (x # w) # ws
            | [] \<Rightarrow> [[x]]))"

text \<open>\<open>url.pathname.split("/")[3]\<close>; \<open>None\<close> is \<open>undefined\<close>.\<close>

definition segment3 :: "string \<Rightarrow> string option" where
  "segment3 p =
     (let segs = splitOn CHR ''/'' p
      in if 3 < length segs then Some (segs ! 3) else None)"

text \<open>\<open>join(GAMES_DIR, id)\<close> for one segment of \<open>URL.pathname\<close>. Such a segment holds no
  \<open>/\<close> and, because the URL parser resolves dot segments, is never \<open>.\<close> or \<open>..\<close>; what is
  left of the normalisation done by \<open>join\<close> is that an empty segment disappears.\<close>

definition joinGames :: "string \<Rightarrow> string list" where
  "joinGames seg = (if seg = [] then [] else [seg])"

text \<open>\<open>name.toLowerCase().replace(/[^a-z0-9]+/g, "-").replace(/^-+|-+$/g, "")\<close>\<close>

definition isSlugChar :: "char \<Rightarrow> bool" where
  "isSlugChar c \<longleftrightarrow> (CHR ''a'' \<le> c \<and> c \<le> CHR ''z'') \<or> (CHR ''0'' \<le> c \<and> c \<le> CHR ''9'')"

fun collapseRuns :: "bool \<Rightarrow> string \<Rightarrow> string" where
  "collapseRuns inRun [] = []"
| "collapseRuns inRun (c # cs) =
     (if isSlugChar c then c # collapseRuns False cs
      else if inRun then collapseRuns True cs
      else CHR ''-'' # collapseRuns True cs)"

definition trimHyphens :: "string \<Rightarrow> string" where
  "trimHyphens s =
     rev (dropWhile (\<lambda>c. c = CHR ''-'') (rev (dropWhile (\<lambda>c. c = CHR ''-'') s)))"

definition slug :: "string \<Rightarrow> string" where
  "slug s = trimHyphens (collapseRuns False (toLowerCase s))"

subsection \<open>The repository pattern\<close>

text \<open>
  \<open>String(repo).match(/github.com\/(.+?)\/(.+?)(?:\.git)?$/)\<close>, written out as the
  backtracking search the pattern denotes: the leftmost start, the dot of \<open>github.com\<close>
  matching any character but a line terminator, both groups lazy and non-empty, an
  optional \<open>.git\<close>, then the end of the input. The result is the pair of groups.
\<close>

definition isLineTerminator :: "char \<Rightarrow> bool" where
  "isLineTerminator c \<longleftrightarrow> c = CHR 0x0A \<or> c = CHR 0x0D"

fun lazyRepo :: "string \<Rightarrow> string \<Rightarrow> string option" where
  "lazyRepo acc [] = (if acc \<noteq> [] then Some acc else None)"
| "lazyRepo acc (c # cs) =
     (if acc \<noteq> [] \<and> c # cs = ''.git'' then Some acc
      else if isLineTerminator c then None
      else lazyRepo (acc @ [c]) cs)"

fun lazyOwner :: "string \<Rightarrow> string \<Rightarrow> (string \<times> string) option" where
  "lazyOwner acc [] = None"
| "lazyOwner acc (c # cs) =
     (case (if acc \<noteq> [] \<and> c = CHR ''/'' then lazyRepo [] cs else None) of
        Some r \<Rightarrow> Some (acc, r)
      | None \<Rightarrow> if isLineTerminator c then None else lazyOwner (acc @ [c]) cs)"

definition matchHere :: "string \<Rightarrow> (string \<times> string) option" where
  "matchHere s =
     (if 11 \<le> length s \<and> take 6 s = ''github'' \<and> \<not> isLineTerminator (s ! 6)
         \<and> take 4 (drop 7 s) = ''com/''
      then lazyOwner [] (drop 11 s) else None)"

fun repoMatch :: "string \<Rightarrow> (string \<times> string) option" where
  "repoMatch [] = None"
| "repoMatch (c # cs) =
     (case matchHere (c # cs) of
        Some m \<Rightarrow> Some m
      | None \<Rightarrow> repoMatch cs)"

subsection \<open>Requests, responses and the world outside\<close>

record FormData =
  file_f :: "bytes option"
  name_f :: "string option"
  subdir_f :: "string option"

record GithubBody =
  repo :: "string option"
  branch :: "string option"
  subdir_j :: "string option"
  name_j :: "string option"

text \<open>A request: method and \<open>URL.pathname\<close>, and what \<open>req.formData()\<close>, \<open>req.json()\<close>
  and \<open>req.arrayBuffer()\<close> give for its body (\<open>None\<close> when the promise rejects).\<close>

record Request =
  reqMethod :: string
  pathname :: string
  formData :: "FormData option"
  json :: "GithubBody option"
  arrayBuffer :: bytes

record FetchResponse =
  ok :: bool
  body :: bytes

text \<open>
  What the handler calls and this repository does not define: \<open>localeCompare\<close>;
  \<open>fetch\<close> (\<open>None\<close> when the promise rejects); the archiver (\<open>unzip\<close>, on macOS then
  \<open>ditto\<close>), giving the extracted tree or \<open>None\<close> when no tool succeeds; and \<open>copy\<close> of the
  standard library with \<open>overwrite: true\<close>, from an existing source onto the entries of
  the target directory (\<open>None\<close> when it throws).
\<close>

record Env =
  localeCompare :: "string \<Rightarrow> string \<Rightarrow> int"
  fetch :: "string \<Rightarrow> FetchResponse option"
  unzip :: "bytes \<Rightarrow> dir option"
  copy :: "node \<Rightarrow> dir \<Rightarrow> dir option"

datatype effect = FetchUrl string | RunUnzip bytes

datatype payload = Text string | Games "GameEntry list" | Ok | OkId string

datatype outcome = Response nat payload | NoRoute | Throws exn

text \<open>What a call leaves behind: the outcome, the library, and the external calls made.\<close>

type_synonym result = "outcome \<times> dir option \<times> effect list"

subsection \<open>saveZipToDir\<close>

text \<open>\<open>v || dflt\<close> for an optional string: absent and empty are both falsy.\<close>

definition orDefault :: "string option \<Rightarrow> string \<Rightarrow> string" where
  "orDefault v dflt = (case v of None \<Rightarrow> dflt | Some s \<Rightarrow> if s = [] then dflt else s)"

text \<open>The base directory inside the extracted content, as a path below the extraction
  root.\<close>

definition resolveBase :: "dir \<Rightarrow> string option \<Rightarrow> string list" where
  "resolveBase extracted subdirHint =
     (let topLevel = map fst extracted;
          base = (if length topLevel = 1 then [topLevel ! 0] else []);
          hint = toLowerCase (orDefault subdirHint ''root'')
      in if hint = ''dist'' \<or> hint = ''docs'' then base @ [hint] else base)"

text \<open>The entries of the target directory and their replacement; the target is
  \<open>GAMES_DIR\<close> itself or one of its sub-directories.\<close>

definition targetEntries :: "dir \<Rightarrow> string list \<Rightarrow> dir option" where
  "targetEntries d target =
     (case stat d target of Some (Dir k) \<Rightarrow> Some k | _ \<Rightarrow> None)"

definition putTargetEntries :: "dir \<Rightarrow> string list \<Rightarrow> dir \<Rightarrow> dir" where
  "putTargetEntries d target k =
     (case target of [] \<Rightarrow> k | n # _ \<Rightarrow> AList.update n (Dir k) d)"

text \<open>\<open>saveZipToDir\<close> returns nothing: the first component is the exception it ends with,
  if any.\<close>

definition saveZipToDir ::
  "Env \<Rightarrow> bytes \<Rightarrow> string list \<Rightarrow> string option \<Rightarrow> dir option
     \<Rightarrow> exn option \<times> dir option \<times> effect list" where
  "saveZipToDir env zipBytes targetDir subdirHint st =
     (case ensureDir st targetDir of
        Inl e \<Rightarrow> (Some e, st, [])
      | Inr st1 \<Rightarrow>
          (case unzip env zipBytes of
             None \<Rightarrow> (Some ExtractFailed, st1, [RunUnzip zipBytes])
           | Some extracted \<Rightarrow>
               (let base = resolveBase extracted subdirHint in
                case (stat extracted base, st1) of
                  (Some src, Some d) \<Rightarrow>
                    (case targetEntries d targetDir of
                       None \<Rightarrow> (Some NotFound, st1, [RunUnzip zipBytes])
                     | Some k \<Rightarrow>
                         (case copy env src k of
                            None \<Rightarrow> (Some CopyFailed, st1, [RunUnzip zipBytes])
                          | Some k' \<Rightarrow>
                              (None, Some (putTargetEntries d targetDir k'),
                               [RunUnzip zipBytes])))
                | _ \<Rightarrow> (Some NotFound, st1, [RunUnzip zipBytes]))))"

text \<open>
  The archive source as the specification words it: a sole top-level entry is the
  effective root, otherwise the extraction root is; under the hint \<open>dist\<close> or \<open>docs\<close>
  the source is the sub-folder of that name in the effective root, when present.
\<close>

definition spec_effectiveRoot :: "dir \<Rightarrow> node" where
  "spec_effectiveRoot extracted =
     (case extracted of [(w, n)] \<Rightarrow> n | _ \<Rightarrow> Dir extracted)"

definition spec_source :: "dir \<Rightarrow> string option \<Rightarrow> node option" where
  "spec_source extracted subdirHint =
     (let hint = toLowerCase (orDefault subdirHint ''root'') in
      if hint = ''dist'' \<or> hint = ''docs'' then
        (case spec_effectiveRoot extracted of
           Dir kids \<Rightarrow> map_of kids hint
         | File b \<Rightarrow> None)
      else Some (spec_effectiveRoot extracted))"

subsection \<open>handleApi\<close>

definition textResponse :: "nat \<Rightarrow> string \<Rightarrow> dir option \<Rightarrow> result" where
  "textResponse code msg st = (Response code (Text msg), st, [])"

definition apiAddGame :: "Env \<Rightarrow> bytes \<Rightarrow> string \<Rightarrow> string option \<Rightarrow> dir option \<Rightarrow> effect list \<Rightarrow> result" where
  "apiAddGame env zipBytes i subdirHint st tr0 =
     (let target = joinGames i in
      case ensureDir st target of
        Inl e \<Rightarrow> (Throws e, st, tr0)
      | Inr st1 \<Rightarrow>
          (case saveZipToDir env zipBytes target subdirHint st1 of
             (None, st2, tr) \<Rightarrow> (Response 200 (OkId i), st2, tr0 @ tr)
           | (Some e, st2, tr) \<Rightarrow> (Throws e, st2, tr0 @ tr)))"

definition apiFromZip :: "Env \<Rightarrow> Request \<Rightarrow> dir option \<Rightarrow> result" where
  "apiFromZip env req st =
     (case formData req of
        None \<Rightarrow> (Throws BadBody, st, [])
      | Some form \<Rightarrow>
          (let nm = orDefault (name_f form) ''game'';
               sd = orDefault (subdir_f form) ''root''
           in case file_f form of
                None \<Rightarrow> textResponse 400 ''file required'' st
              | Some zipBytes \<Rightarrow> apiAddGame env zipBytes (slug nm) (Some sd) st []))"

definition zipUrl :: "string \<Rightarrow> string \<Rightarrow> string \<Rightarrow> string" where
  "zipUrl owner repoName useBranch =
     ''https://codeload.github.com/'' @ owner @ ''/'' @ repoName @ ''/zip/refs/heads/'' @ useBranch"

definition apiFromGithub :: "Env \<Rightarrow> Request \<Rightarrow> dir option \<Rightarrow> result" where
  "apiFromGithub env req st =
     (case json req of
        None \<Rightarrow> (Throws BadBody, st, [])
      | Some b \<Rightarrow>
          if orDefault (repo b) [] = [] then textResponse 400 ''repo required'' st
          else
            (case repoMatch (orDefault (repo b) []) of
               None \<Rightarrow> textResponse 400 ''invalid repo url'' st
             | Some (owner, repoName) \<Rightarrow>
                 (let useBranch = orDefault (branch b) ''main'';
                      url = zipUrl owner repoName useBranch
                  in case fetch env url of
                       None \<Rightarrow> (Throws TypeError, st, [FetchUrl url])
                     | Some resp \<Rightarrow>
                         if \<not> ok resp then (Response 502 (Text ''download failed''), st, [FetchUrl url])
                         else apiAddGame env (body resp) (slug (orDefault (name_j b) repoName))
                                (Some (orDefault (subdir_j b) ''root'')) st [FetchUrl url])))"

definition apiThumbnail :: "Request \<Rightarrow> dir option \<Rightarrow> result" where
  "apiThumbnail req st =
     (case segment3 (pathname req) of
        None \<Rightarrow> (Throws TypeError, st, [])
      | Some i \<Rightarrow>
          (let target = joinGames i in
           case (statGames st target, st) of
             (Some (Dir k), Some d) \<Rightarrow>
               (case writeFile d (target @ [''thumbnail.png'']) (arrayBuffer req) of
                  Inl e \<Rightarrow> (Throws e, st, [])
                | Inr d' \<Rightarrow> (Response 200 Ok, Some d', []))
           | _ \<Rightarrow> textResponse 404 ''not found'' st))"

definition apiDelete :: "Request \<Rightarrow> dir option \<Rightarrow> result" where
  "apiDelete req st =
     (case segment3 (pathname req) of
        None \<Rightarrow> (Throws TypeError, st, [])
      | Some i \<Rightarrow>
          (let target = joinGames i in
           case statGames st target of
             Some (Dir k) \<Rightarrow>
               (case removeRecursive st target of
                  Inl e \<Rightarrow> (Throws e, st, [])
                | Inr st' \<Rightarrow> (Response 200 Ok, st', []))
           | _ \<Rightarrow> textResponse 404 ''not found'' st))"

definition handleApi :: "Env \<Rightarrow> Request \<Rightarrow> dir option \<Rightarrow> result" where
  "handleApi env req st =
     (if pathname req = ''/api/games'' \<and> reqMethod req = ''GET'' then
        (case listGames (localeCompare env) st of
           Inl e \<Rightarrow> (Throws e, st, [])
         | Inr games \<Rightarrow> (Response 200 (Games games), st, []))
      else if pathname req = ''/api/add-game/from-zip'' \<and> reqMethod req = ''POST'' then
        apiFromZip env req st
      else if pathname req = ''/api/add-game/from-github'' \<and> reqMethod req = ''POST'' then
        apiFromGithub env req st
      else if prefix ''/api/games/'' (pathname req) \<and> suffix ''/thumbnail'' (pathname req)
              \<and> reqMethod req = ''POST'' then
        apiThumbnail req st
      else if prefix ''/api/games/'' (pathname req) \<and> reqMethod req = ''DELETE'' then
        apiDelete req st
      else (NoRoute, st, []))"

subsection \<open>A concrete environment for test runs\<close>

text \<open>An archive as GitHub serves it: everything below one folder \<open>repo-main\<close>.\<close>

definition sampleArchive :: dir where
  "sampleArchive =
     [(''repo-main'',
        Dir [(''README.md'', File [35]),
             (''dist'', Dir [(''index.html'', File [60, 104])])])]"

definition sampleCopy :: "node \<Rightarrow> dir \<Rightarrow> dir option" where
  "sampleCopy src k =
     (case src of
        Dir kids \<Rightarrow> Some (foldl (\<lambda>acc (n, e). AList.update n e acc) k kids)
      | File b \<Rightarrow> None)"

definition sampleEnv :: Env where
  "sampleEnv =
     \<lparr> localeCompare = compareCodeUnits,
       fetch = (\<lambda>url. if url = ''https://codeload.github.com/user/repo/zip/refs/heads/main''
                       then Some \<lparr> ok = True, body = [80, 75] \<rparr>
                       else Some \<lparr> ok = False, body = [] \<rparr>),
       unzip = (\<lambda>b. if b = [80, 75] then Some sampleArchive else None),
       copy = sampleCopy \<rparr>"

definition sampleRequest :: "string \<Rightarrow> string \<Rightarrow> Request" where
  "sampleRequest m p =
     \<lparr> reqMethod = m, pathname = p, formData = None, json = None, arrayBuffer = [137, 80, 78, 71] \<rparr>"



section \<open>The launcher page\<close>

text \<open>
  The module-level variables of the launcher script and the state of the gamepad
  manager that the per-frame loop reads and writes, together with the classes it tests
  on the document (\<open>playing\<close> on the body, \<open>hidden\<close> on the two overlays, \<open>visible\<close> on the
  configurator). \<open>trace\<close> lists what a run did to the outside: events dispatched into the
  game frame and calls of the routing functions.
\<close>

text \<open>
  A number as an entry of the mapping can hold it: an integer; \<open>NaN\<close>, which is what
  \<open>parseInt\<close> of an empty selection and \<open>charCodeAt(0)\<close> of an empty key give when the
  configurator saves an entry; and \<open>null\<close>, which is what a saved \<open>NaN\<close> is read back as.
\<close>

datatype jsnum = Number int | NaN | Null

record ButtonMapping =
  gamepadButton :: jsnum
  keyboardKey :: string
  keyCode :: jsnum

datatype action =
    DispatchKey string ButtonMapping
  | ToggleFullscreen
  | CloseConfigurator
  | LauncherNavigation string
  | LauncherSelect
  | StartButton
  | ToggleOSD bool
  | OSDNavigation string
  | OSDActivate
  | GameMenuNavigation string
  | GameMenuActivate
  | HideGameMenu
  | InitOSDFocus
  | InitGameMenuFocus

record Page =
  games :: "GameEntry list"
  focusedIndex :: int
  currentGame :: "GameEntry option"
  playing :: bool
  osdOpen :: bool
  gameMenuOpen :: bool
  menuGame :: "(string \<times> int) option"
  configuratorOpen :: bool
  testingMode :: bool
  wasOSDOpen :: bool
  wasGameMenuOpen :: bool
  trace :: "action list"

definition initialPage :: Page where
  "initialPage =
     \<lparr> games = [], focusedIndex = 0, currentGame = None, playing = False, osdOpen = False,
       gameMenuOpen = False, menuGame = None, configuratorOpen = False, testingMode = False,
       wasOSDOpen = False, wasGameMenuOpen = False, trace = [] \<rparr>"

definition emit :: "action \<Rightarrow> Page \<Rightarrow> Page" where
  "emit a pg = pg \<lparr> trace := trace pg @ [a] \<rparr>"

subsection \<open>Focus, launch and overlays\<close>

definition openGame :: "GameEntry \<Rightarrow> Page \<Rightarrow> Page" where
  "openGame game pg = pg \<lparr> playing := True, currentGame := Some game \<rparr>"

definition exitGame :: "Page \<Rightarrow> Page" where
  "exitGame pg = pg \<lparr> playing := False, currentGame := None \<rparr>"

text \<open>\<open>focusIndex(i, open)\<close>: \<open>Math.max(0, Math.min(games.length - 1, i))\<close>.\<close>

definition focusIndex :: "int \<Rightarrow> bool \<Rightarrow> Page \<Rightarrow> Page" where
  "focusIndex i open' pg =
     (if games pg = [] then pg
      else
        (let pg1 = pg \<lparr> focusedIndex := max 0 (min (int (length (games pg)) - 1) i) \<rparr>
         in if open' then openGame (games pg1 ! nat (focusedIndex pg1)) pg1 else pg1))"

definition renderCoverflow :: "Page \<Rightarrow> Page" where
  "renderCoverflow pg = focusIndex (focusedIndex pg) False pg"

text \<open>\<open>fetchGames\<close>, given the list the server answered.\<close>

definition fetchGames :: "GameEntry list \<Rightarrow> Page \<Rightarrow> Page" where
  "fetchGames answer pg = renderCoverflow (pg \<lparr> games := answer \<rparr>)"

definition toggleOSD :: "bool \<Rightarrow> Page \<Rightarrow> Page" where
  "toggleOSD show' pg = pg \<lparr> osdOpen := show' \<rparr>"

text \<open>\<open>games.indexOf(game)\<close>\<close>

fun indexOf :: "'a list \<Rightarrow> 'a \<Rightarrow> int" where
  "indexOf [] x = - 1"
| "indexOf (y # ys) x =
     (if y = x then 0 else (let r = indexOf ys x in if r < 0 then - 1 else r + 1))"

definition showGameMenu :: "GameEntry \<Rightarrow> Page \<Rightarrow> Page" where
  "showGameMenu game pg =
     pg \<lparr> gameMenuOpen := True, menuGame := Some (id' game, indexOf (games pg) game) \<rparr>"

definition hideGameMenu :: "Page \<Rightarrow> Page" where
  "hideGameMenu pg = pg \<lparr> gameMenuOpen := False, menuGame := None \<rparr>"

text \<open>\<open>games.splice(gameIndex, 1)\<close> for an integer index: a negative index counts from
  the end, an index past the end removes nothing.\<close>

definition spliceOne :: "int \<Rightarrow> 'a list \<Rightarrow> 'a list" where
  "spliceOne i xs =
     (let n = int (length xs);
          start = (if i < 0 then max (n + i) 0 else min i n)
      in take (nat start) xs @ drop (nat start + 1) xs)"

text \<open>
  \<open>deleteGame(gameId, gameIndex)\<close>. \<open>confirmed\<close> is the answer to the confirmation dialog
  and \<open>resOk\<close> says whether the request came back with an ok response (a failed request
  ends in the \<open>catch\<close> block, which changes nothing).
\<close>

definition deleteGame :: "string \<Rightarrow> int \<Rightarrow> bool \<Rightarrow> bool \<Rightarrow> Page \<Rightarrow> Page" where
  "deleteGame gameId gameIndex confirmed resOk pg =
     (if \<not> confirmed then pg
      else if resOk then
        (let pg1 = pg \<lparr> games := spliceOne gameIndex (games pg) \<rparr>;
             pg2 = (if focusedIndex pg1 \<ge> int (length (games pg1))
                    then pg1 \<lparr> focusedIndex := max 0 (int (length (games pg1)) - 1) \<rparr>
                    else pg1)
         in renderCoverflow pg2)
      else pg)"

text \<open>The click handler of the delete button of the game menu: \<open>deleteGame\<close> is called
  with the id and index kept in the menu, the menu is hidden at once, and what
  \<open>deleteGame\<close> does after its request has come back happens on the page with the menu
  hidden.\<close>

definition deleteGameClick :: "bool \<Rightarrow> bool \<Rightarrow> Page \<Rightarrow> Page" where
  "deleteGameClick confirmed resOk pg =
     (case menuGame pg of
        Some (gameId, gameIndex) \<Rightarrow>
          if gameId \<noteq> [] \<and> gameIndex \<ge> 0
          then deleteGame gameId gameIndex confirmed resOk (hideGameMenu pg)
          else hideGameMenu pg
      | None \<Rightarrow> hideGameMenu pg)"

text \<open>\<open>globalKeyHandler\<close>, by the \<open>key\<close> of the event.\<close>

record KeyEvent =
  key :: string
  code :: string
  legacyKeyCode :: int

definition isOSDKey :: "KeyEvent \<Rightarrow> bool" where
  "isOSDKey e \<longleftrightarrow>
     key e = ''`'' \<or> key e = ''~'' \<or> code e = ''Backquote'' \<or> legacyKeyCode e = 192"

definition globalKeyHandler :: "KeyEvent \<Rightarrow> Page \<Rightarrow> Page" where
  "globalKeyHandler e pg =
     (let pg1 = (if key e = ''ArrowLeft'' then focusIndex (focusedIndex pg - 1) False pg else pg);
          pg2 = (if key e = ''ArrowRight'' then focusIndex (focusedIndex pg1 + 1) False pg1 else pg1);
          pg3 = (if (key e = ''Enter'' \<or> key e = '' '') \<and> \<not> playing pg2
                 then focusIndex (focusedIndex pg2) True pg2 else pg2);
          pg4 = (if isOSDKey e then toggleOSD True pg3 else pg3)
      in if key e = ''Escape'' \<and> playing pg4 then exitGame pg4 else pg4)"

text \<open>After a successful upload or download: reload the list and focus the new game.\<close>

definition focusAdded :: "GameEntry list \<Rightarrow> string \<Rightarrow> Page \<Rightarrow> Page" where
  "focusAdded answer newId pg =
     (let pg1 = fetchGames answer pg;
          idx = indexOf (map id' (games pg1)) newId
      in focusIndex (if idx = - 1 then 0 else idx) False pg1)"

text \<open>What can happen to the launcher's list and focus.\<close>

datatype event =
    FocusIndex int bool
  | FetchGames "GameEntry list"
  | GameAdded "GameEntry list" string
  | DeleteClick bool bool
  | DeleteGame string int bool bool
  | KeyDown KeyEvent
  | ExitGame

fun step :: "event \<Rightarrow> Page \<Rightarrow> Page" where
  "step (FocusIndex i open') pg = focusIndex i open' pg"
| "step (FetchGames answer) pg = fetchGames answer pg"
| "step (GameAdded answer newId) pg = focusAdded answer newId pg"
| "step (DeleteClick confirmed resOk) pg = deleteGameClick confirmed resOk pg"
| "step (DeleteGame gameId gameIndex confirmed resOk) pg = deleteGame gameId gameIndex confirmed resOk pg"
| "step (KeyDown e) pg = globalKeyHandler e pg"
| "step ExitGame pg = exitGame pg"

definition run :: "event list \<Rightarrow> Page \<Rightarrow> Page" where
  "run evs pg = foldl (\<lambda>p e. step e p) pg evs"

definition focusInRange :: "Page \<Rightarrow> bool" where
  "focusInRange pg \<longleftrightarrow>
     (games pg \<noteq> [] \<longrightarrow> 0 \<le> focusedIndex pg \<and> focusedIndex pg < int (length (games pg)))"

text \<open>A launcher that has loaded three games.\<close>

definition threeGames :: Page where
  "threeGames = fetchGames [gameEntry [] ''a'', gameEntry [] ''b'', gameEntry [] ''c''] initialPage"

section \<open>The gamepad subsystem\<close>

subsection \<open>Button mapping and its persistence\<close>

text \<open>
  A group of the mapping is an object from button names to entries, kept as an
  association list in property order. An absent group and an empty one behave alike
  in everything modelled here.
\<close>

type_synonym Group = "(string \<times> ButtonMapping) list"

record Mapping =
  dpad :: Group
  face :: Group
  shoulder :: Group
  special :: Group

definition bm :: "int \<Rightarrow> string \<Rightarrow> int \<Rightarrow> ButtonMapping" where
  "bm b k c = \<lparr> gamepadButton = Number b, keyboardKey = k, keyCode = Number c \<rparr>"

definition defaultMapping :: Mapping where
  "defaultMapping =
     \<lparr> dpad = [(''up'', bm 12 ''ArrowUp'' 38), (''down'', bm 13 ''ArrowDown'' 40),
               (''left'', bm 14 ''ArrowLeft'' 37), (''right'', bm 15 ''ArrowRight'' 39)],
       face = [(''btnBottom'', bm 0 '' '' 32), (''btnRight'', bm 1 ''c'' 67),
               (''btnLeft'', bm 2 ''c'' 67), (''btnTop'', bm 3 '' '' 32)],
       shoulder = [(''leftShoulder'', bm 4 ''q'' 81), (''rightShoulder'', bm 5 ''e'' 69),
                   (''leftTrigger'', bm 6 ''r'' 82), (''rightTrigger'', bm 7 ''t'' 84)],
       special = [(''select'', bm 8 ''Backspace'' 8), (''start'', bm 9 ''Enter'' 13),
                  (''leftStick'', bm 10 ''f'' 70), (''rightStick'', bm 11 ''g'' 71),
                  (''home'', bm 16 ''h'' 72)] \<rparr>"

text \<open>
  Local storage holds strings. \<open>JSON.stringify\<close> and \<open>JSON.parse\<close> are the platform's; they
  are modelled on the texts a mapping is written as: an object of the four groups, each
  an object from button names to entries, each entry an object of its three properties,
  all in property order and without white space, which is what \<open>JSON.stringify\<close> emits.
  Numbers are integers in decimal; \<open>NaN\<close> is written as \<open>null\<close>. Strings are quoted, with
  the quote, the backslash and the control characters escaped. \<open>parse\<close> gives \<open>None\<close>
  where \<open>JSON.parse\<close> throws, and also on JSON of any other shape, which is outside the
  model.
\<close>

fun showNat :: "nat \<Rightarrow> string" where
  "showNat n =
     (if n < 10 then [''0123456789'' ! n]
      else showNat (n div 10) @ [''0123456789'' ! (n mod 10)])"

declare showNat.simps [simp del]

definition showInt :: "int \<Rightarrow> string" where
  "showInt i = (if i < 0 then ''-'' @ showNat (nat (- i)) else showNat (nat i))"

fun stringifyNum :: "jsnum \<Rightarrow> string" where
  "stringifyNum (Number i) = showInt i"
| "stringifyNum NaN = ''null''"
| "stringifyNum Null = ''null''"

definition hexDigit :: "nat \<Rightarrow> char" where
  "hexDigit n = ''0123456789abcdef'' ! n"

definition escapeChar :: "char \<Rightarrow> string" where
  "escapeChar c =
     (if c = CHR 0x22 then [CHR 0x5C, CHR 0x22]
      else if c = CHR 0x5C then [CHR 0x5C, CHR 0x5C]
      else if c = CHR 0x08 then [CHR 0x5C, CHR ''b'']
      else if c = CHR 0x0C then [CHR 0x5C, CHR ''f'']
      else if c = CHR 0x0A then [CHR 0x5C, CHR ''n'']
      else if c = CHR 0x0D then [CHR 0x5C, CHR ''r'']
      else if c = CHR 0x09 then [CHR 0x5C, CHR ''t'']
      else if (of_char c :: nat) < 32
      then [CHR 0x5C, CHR ''u'', CHR ''0'', CHR ''0'',
            hexDigit ((of_char c :: nat) div 16), hexDigit ((of_char c :: nat) mod 16)]
      else [c])"

definition escape :: "string \<Rightarrow> string" where
  "escape s = concat (map escapeChar s)"

definition quoted :: "string \<Rightarrow> string" where
  "quoted s = [CHR 0x22] @ escape s @ [CHR 0x22]"

text \<open>The name of one of the fixed properties, quoted, and its colon.\<close>

definition propName :: "string \<Rightarrow> string" where
  "propName n = [CHR 0x22] @ n @ [CHR 0x22] @ '':''"

fun commaSep :: "string list \<Rightarrow> string" where
  "commaSep [] = []"
| "commaSep [x] = x"
| "commaSep (x # y # zs) = x @ '','' @ commaSep (y # zs)"

definition stringifyEntry :: "ButtonMapping \<Rightarrow> string" where
  "stringifyEntry e =
     ''{'' @ propName ''gamepadButton'' @ stringifyNum (gamepadButton e) @ '',''
       @ propName ''keyboardKey'' @ quoted (keyboardKey e) @ '',''
       @ propName ''keyCode'' @ stringifyNum (keyCode e) @ ''}''"

definition stringifyMember :: "string \<times> ButtonMapping \<Rightarrow> string" where
  "stringifyMember = (\<lambda>(n, e). quoted n @ '':'' @ stringifyEntry e)"

definition stringifyGroup :: "Group \<Rightarrow> string" where
  "stringifyGroup g = ''{'' @ commaSep (map stringifyMember g) @ ''}''"

definition stringify :: "Mapping \<Rightarrow> string" where
  "stringify m =
     ''{'' @ propName ''dpad'' @ stringifyGroup (dpad m) @ '',''
       @ propName ''face'' @ stringifyGroup (face m) @ '',''
       @ propName ''shoulder'' @ stringifyGroup (shoulder m) @ '',''
       @ propName ''special'' @ stringifyGroup (special m) @ ''}''"

text \<open>The parser. Each part takes the text and gives what it read and the rest.\<close>

fun expect :: "string \<Rightarrow> string \<Rightarrow> string option" where
  "expect [] s = Some s"
| "expect (c # cs) [] = None"
| "expect (c # cs) (x # xs) = (if c = x then expect cs xs else None)"

definition hexVal :: "char \<Rightarrow> nat option" where
  "hexVal c = map_of (zip ''0123456789abcdefABCDEF'' ([0..<16] @ [10..<16])) c"

definition unescape :: "char \<Rightarrow> char option" where
  "unescape e =
     map_of [(CHR 0x22, CHR 0x22), (CHR 0x5C, CHR 0x5C), (CHR ''/'', CHR ''/''),
             (CHR ''b'', CHR 0x08), (CHR ''f'', CHR 0x0C), (CHR ''n'', CHR 0x0A),
             (CHR ''r'', CHR 0x0D), (CHR ''t'', CHR 0x09)] e"

definition consChar :: "char \<Rightarrow> (string \<times> string) option \<Rightarrow> (string \<times> string) option" where
  "consChar c r = map_option (\<lambda>(s, rest). (c # s, rest)) r"

text \<open>The characters of a string after its opening quote, up to the closing one. A
  four-digit hexadecimal escape beyond the characters of the model is refused.\<close>

fun parseChars :: "string \<Rightarrow> (string \<times> string) option" where
  "parseChars [] = None"
| "parseChars (c # cs) =
     (if c = CHR 0x22 then Some ([], cs)
      else if c = CHR 0x5C then
        (case cs of
           [] \<Rightarrow> None
         | e # cs1 \<Rightarrow>
             if e = CHR ''u'' then
               (case cs1 of
                  h3 # h2 # h1 # h0 # cs2 \<Rightarrow>
                    (case (hexVal h3, hexVal h2, hexVal h1, hexVal h0) of
                       (Some a, Some b, Some c', Some d) \<Rightarrow>
                         (let n = ((a * 16 + b) * 16 + c') * 16 + d
                          in if n < 256 then consChar (char_of n) (parseChars cs2) else None)
                     | _ \<Rightarrow> None)
                | _ \<Rightarrow> None)
             else
               (case unescape e of
                  Some x \<Rightarrow> consChar x (parseChars cs1)
                | None \<Rightarrow> None))
      else if (of_char c :: nat) < 32 then None
      else consChar c (parseChars cs))"

definition parseString :: "string \<Rightarrow> (string \<times> string) option" where
  "parseString s = (case expect [CHR 0x22] s of None \<Rightarrow> None | Some s1 \<Rightarrow> parseChars s1)"

definition digitVal :: "char \<Rightarrow> nat option" where
  "digitVal c = map_of (zip ''0123456789'' [0..<10]) c"

definition isDigit :: "char \<Rightarrow> bool" where
  "isDigit c \<longleftrightarrow> digitVal c \<noteq> None"

definition readNat :: "string \<Rightarrow> nat" where
  "readNat ds = foldl (\<lambda>a c. a * 10 + the (digitVal c)) 0 ds"

definition parseNum :: "string \<Rightarrow> (jsnum \<times> string) option" where
  "parseNum s =
     (case expect ''null'' s of
        Some rest \<Rightarrow> Some (Null, rest)
      | None \<Rightarrow>
          (let neg = (expect ''-'' s \<noteq> None);
               s1 = (if neg then tl s else s);
               ds = takeWhile isDigit s1
           in if ds = [] then None
              else Some (Number (if neg then - int (readNat ds) else int (readNat ds)),
                         dropWhile isDigit s1)))"

definition parseEntry :: "string \<Rightarrow> (ButtonMapping \<times> string) option" where
  "parseEntry s = do {
     s1 \<leftarrow> expect (''{'' @ propName ''gamepadButton'') s;
     (b, s2) \<leftarrow> parseNum s1;
     s3 \<leftarrow> expect ('','' @ propName ''keyboardKey'') s2;
     (k, s4) \<leftarrow> parseString s3;
     s5 \<leftarrow> expect ('','' @ propName ''keyCode'') s4;
     (c, s6) \<leftarrow> parseNum s5;
     s7 \<leftarrow> expect ''}'' s6;
     Some (\<lparr> gamepadButton = b, keyboardKey = k, keyCode = c \<rparr>, s7)
   }"

text \<open>The members of a non-empty object up to its closing brace; the fuel bounds their
  number, and the length of the text is always enough.\<close>

fun parseMembers :: "nat \<Rightarrow> string \<Rightarrow> (Group \<times> string) option" where
  "parseMembers 0 s = None"
| "parseMembers (Suc n) s = do {
     (k, s1) \<leftarrow> parseString s;
     s2 \<leftarrow> expect '':'' s1;
     (e, s3) \<leftarrow> parseEntry s2;
     (case s3 of
        [] \<Rightarrow> None
      | c # s4 \<Rightarrow>
          if c = CHR '','' then do { (ms, s5) \<leftarrow> parseMembers n s4; Some ((k, e) # ms, s5) }
          else if c = CHR ''}'' then Some ([(k, e)], s4)
          else None)
   }"

definition parseGroup :: "string \<Rightarrow> (Group \<times> string) option" where
  "parseGroup s = do {
     s1 \<leftarrow> expect ''{'' s;
     (case expect ''}'' s1 of
        Some rest \<Rightarrow> Some ([], rest)
      | None \<Rightarrow> parseMembers (length s1) s1)
   }"

definition parse :: "string \<Rightarrow> Mapping option" where
  "parse s = do {
     s1 \<leftarrow> expect (''{'' @ propName ''dpad'') s;
     (d, s2) \<leftarrow> parseGroup s1;
     s3 \<leftarrow> expect ('','' @ propName ''face'') s2;
     (f, s4) \<leftarrow> parseGroup s3;
     s5 \<leftarrow> expect ('','' @ propName ''shoulder'') s4;
     (sh, s6) \<leftarrow> parseGroup s5;
     s7 \<leftarrow> expect ('','' @ propName ''special'') s6;
     (sp, s8) \<leftarrow> parseGroup s7;
     s9 \<leftarrow> expect ''}'' s8;
     if s9 = [] then Some \<lparr> dpad = d, face = f, shoulder = sh, special = sp \<rparr> else None
   }"

type_synonym Storage = "string \<rightharpoonup> string"

text \<open>\<open>localStorage.setItem('gamepadMapping', JSON.stringify(this.currentMapping))\<close>\<close>

definition saveMapping :: "Mapping \<Rightarrow> Storage \<Rightarrow> Storage" where
  "saveMapping currentMapping localStorage =
     localStorage(''gamepadMapping'' \<mapsto> stringify currentMapping)"

text \<open>\<open>'north' in f || 'east' in f || 'south' in f || 'west' in f\<close>\<close>

definition needsMigration :: "Group \<Rightarrow> bool" where
  "needsMigration f \<longleftrightarrow>
     ''north'' \<in> set (map fst f) \<or> ''east'' \<in> set (map fst f)
     \<or> ''south'' \<in> set (map fst f) \<or> ''west'' \<in> set (map fst f)"

text \<open>\<open>f.north || this.defaultMapping.face.btnTop\<close>: an entry is an object, hence truthy.\<close>

definition orDefaultEntry :: "Group \<Rightarrow> string \<Rightarrow> string \<Rightarrow> ButtonMapping option" where
  "orDefaultEntry f old new =
     (case map_of f old of
        Some e \<Rightarrow> Some e
      | None \<Rightarrow> map_of (face defaultMapping) new)"

definition migrateFace :: "Group \<Rightarrow> Group" where
  "migrateFace f =
     concat (map (\<lambda>(new, old). case orDefaultEntry f old new of Some e \<Rightarrow> [(new, e)] | None \<Rightarrow> [])
       [(''btnTop'', ''north''), (''btnRight'', ''east''),
        (''btnBottom'', ''south''), (''btnLeft'', ''west'')])"

definition migrate :: "Mapping \<Rightarrow> Mapping" where
  "migrate mapping =
     (if needsMigration (face mapping)
      then mapping \<lparr> face := migrateFace (face mapping) \<rparr>
      else mapping)"

text \<open>\<open>saved ? JSON.parse(saved) : JSON.parse(JSON.stringify(this.defaultMapping))\<close>,
  then the migration; the empty string is falsy like an absent item.\<close>

definition loadMapping :: "Storage \<Rightarrow> Mapping option" where
  "loadMapping localStorage =
     (let saved = localStorage ''gamepadMapping'';
          mapping = (case saved of
                       Some s \<Rightarrow> if s \<noteq> [] then parse s
                                 else parse (stringify defaultMapping)
                     | None \<Rightarrow> parse (stringify defaultMapping))
      in map_option migrate mapping)"

text \<open>The current schema: the four groups with the button names of the default mapping,
  in any order.\<close>

definition hasNames :: "Group \<Rightarrow> string list \<Rightarrow> bool" where
  "hasNames g names \<longleftrightarrow> distinct (map fst g) \<and> set (map fst g) = set names"

definition currentSchema :: "Mapping \<Rightarrow> bool" where
  "currentSchema m \<longleftrightarrow>
     hasNames (dpad m) (map fst (dpad defaultMapping))
     \<and> hasNames (face m) (map fst (face defaultMapping))
     \<and> hasNames (shoulder m) (map fst (shoulder defaultMapping))
     \<and> hasNames (special m) (map fst (special defaultMapping))"

text \<open>A mapping stored by the earlier version: the face group under the old names.\<close>

definition legacyMapping :: Mapping where
  "legacyMapping =
     defaultMapping
       \<lparr> face := [(''south'', bm 0 ''z'' 90), (''east'', bm 1 ''x'' 88), (''north'', bm 3 ''s'' 83)] \<rparr>"

text \<open>
  What a mapping is after it has gone through its JSON text: every \<open>NaN\<close> has become
  \<open>null\<close>, everything else is as it was.
\<close>

fun jsonNum :: "jsnum \<Rightarrow> jsnum" where
  "jsonNum NaN = Null"
| "jsonNum x = x"

definition jsonEntry :: "ButtonMapping \<Rightarrow> ButtonMapping" where
  "jsonEntry e = e \<lparr> gamepadButton := jsonNum (gamepadButton e), keyCode := jsonNum (keyCode e) \<rparr>"

definition jsonGroup :: "Group \<Rightarrow> Group" where
  "jsonGroup g = map (\<lambda>(n, e). (n, jsonEntry e)) g"

definition jsonMapping :: "Mapping \<Rightarrow> Mapping" where
  "jsonMapping m =
     \<lparr> dpad = jsonGroup (dpad m), face = jsonGroup (face m),
       shoulder = jsonGroup (shoulder m), special = jsonGroup (special m) \<rparr>"

text \<open>The numbers a mapping holds, and the mappings none of whose numbers is \<open>NaN\<close>.\<close>

definition numbersOf :: "Mapping \<Rightarrow> jsnum list" where
  "numbersOf m =
     concat (map (\<lambda>(n, e). [gamepadButton e, keyCode e])
       (dpad m @ face m @ shoulder m @ special m))"

definition noNaN :: "Mapping \<Rightarrow> bool" where
  "noNaN m \<longleftrightarrow> NaN \<notin> set (numbersOf m)"

text \<open>
  Two mappings a user can reach in the configurator. In the first the bottom face button
  is bound to the double-quote key and the right one to the backslash key. The second is
  what \<open>saveCurrentMapping\<close> leaves when the button selector shows no option (the
  detected button has an index the selector does not list): \<open>parseInt('')\<close> is \<open>NaN\<close>.
\<close>

definition customMapping :: Mapping where
  "customMapping =
     defaultMapping
       \<lparr> face := [(''btnBottom'', bm 0 [CHR 0x22] 34), (''btnRight'', bm 1 [CHR 0x5C] 92),
                  (''btnLeft'', bm 5 ''z'' 90), (''btnTop'', bm 3 '' '' 32)] \<rparr>"

definition nanMapping :: Mapping where
  "nanMapping =
     defaultMapping
       \<lparr> face := [(''btnBottom'', \<lparr> gamepadButton = NaN, keyboardKey = '' '', keyCode = Number 32 \<rparr>),
                  (''btnRight'', bm 1 ''c'' 67), (''btnLeft'', bm 2 ''c'' 67),
                  (''btnTop'', bm 3 '' '' 32)] \<rparr>"

text \<open>Storage with nothing in it, and storage in which the earlier version has saved its
  mapping.\<close>

definition emptyStorage :: Storage where
  "emptyStorage = Map.empty"

definition legacyStorage :: Storage where
  "legacyStorage = saveMapping legacyMapping emptyStorage"

subsection \<open>Controllers and the per-frame snapshot\<close>

text \<open>A controller as the loop reads it: the \<open>pressed\<close> flag of each button, and the axes.\<close>

record Controller =
  buttons :: "bool list"
  axes :: "real list"

text \<open>
  \<open>buttonState[controllerIndex]\<close> is an object whose properties hold either a boolean or,
  under \<open>leftStick\<close> and \<open>rightStick\<close>, the object \<open>{ left, right, up, down }\<close> of the
  analog stick.
\<close>

datatype bval = Flag bool | Stick bool bool bool bool

type_synonym ButtonState = "string \<rightharpoonup> bval"

text \<open>\<open>prevButtonState[name] || false\<close> read as a condition: an object is truthy.\<close>

fun truthy :: "bval option \<Rightarrow> bool" where
  "truthy None = False"
| "truthy (Some (Flag b)) = b"
| "truthy (Some (Stick l r u d)) = True"

text \<open>The state \<open>addGamepad\<close> gives a controller.\<close>

definition addGamepadState :: ButtonState where
  "addGamepadState =
     [''dpadLeft'' \<mapsto> Flag False, ''dpadRight'' \<mapsto> Flag False, ''dpadUp'' \<mapsto> Flag False,
      ''dpadDown'' \<mapsto> Flag False, ''faceSouth'' \<mapsto> Flag False, ''faceNorth'' \<mapsto> Flag False,
      ''faceEast'' \<mapsto> Flag False, ''faceWest'' \<mapsto> Flag False, ''osdCombo'' \<mapsto> Flag False,
      ''leftStick'' \<mapsto> Stick False False False False,
      ''rightStick'' \<mapsto> Stick False False False False]"

text \<open>\<open>controller.buttons[i]\<close>: the button object when the index is an integer in range
  (\<open>buttons[NaN]\<close> and \<open>buttons[null]\<close> are \<open>undefined\<close>).\<close>

definition buttonAt :: "Controller \<Rightarrow> jsnum \<Rightarrow> bool option" where
  "buttonAt c x =
     (case x of
        Number i \<Rightarrow>
          if 0 \<le> i \<and> i < int (length (buttons c)) then Some (buttons c ! nat i) else None
      | _ \<Rightarrow> None)"

text \<open>\<open>controller.buttons[i]?.pressed\<close> read as a condition.\<close>

definition pressedAt :: "Controller \<Rightarrow> jsnum \<Rightarrow> bool" where
  "pressedAt c i = (case buttonAt c i of Some b \<Rightarrow> b | None \<Rightarrow> False)"

subsection \<open>State queries and routing targets\<close>

text \<open>
  What the page gives the loop and this file does not fix: the effect of the click
  that \<open>activateFocusedOSDItem\<close> and \<open>activateFocusedGameMenuItem\<close> simulate on the
  focused control, and whether \<open>window.hideGameMenu\<close> is defined. Listeners reacting to a
  synthetic key event are not modelled; the trace records the dispatch.
\<close>

record Dom =
  osdClick :: "Page \<Rightarrow> Page"
  gameMenuClick :: "Page \<Rightarrow> Page"
  hideGameMenuExposed :: bool

definition isOSDOpen :: "Page \<Rightarrow> bool" where
  "isOSDOpen pg = osdOpen pg"

definition isGameMenuOpen :: "Page \<Rightarrow> bool" where
  "isGameMenuOpen pg = gameMenuOpen pg"

definition isAnyOverlayOpen :: "Page \<Rightarrow> bool" where
  "isAnyOverlayOpen pg \<longleftrightarrow> isOSDOpen pg \<or> isGameMenuOpen pg"

definition isConfiguratorOpen :: "Page \<Rightarrow> bool" where
  "isConfiguratorOpen pg = configuratorOpen pg"

definition isTestingActive :: "Page \<Rightarrow> bool" where
  "isTestingActive pg \<longleftrightarrow> testingMode pg \<and> isConfiguratorOpen pg"

text \<open>The controller index is not looked at: inputs of all controllers are swallowed.\<close>

definition shouldSwallowFor :: "nat \<Rightarrow> Page \<Rightarrow> bool" where
  "shouldSwallowFor controllerIndex pg = isTestingActive pg"

definition closeConfigurator :: "Page \<Rightarrow> Page" where
  "closeConfigurator pg =
     emit CloseConfigurator (pg \<lparr> configuratorOpen := False, testingMode := False \<rparr>)"

definition dispatchKeyboardEvent :: "string \<Rightarrow> ButtonMapping \<Rightarrow> Page \<Rightarrow> Page" where
  "dispatchKeyboardEvent eventType mapping pg =
     (if \<not> playing pg then pg
      else if isAnyOverlayOpen pg then pg
      else emit (DispatchKey eventType mapping) pg)"

definition handleSpecialActions :: "string \<Rightarrow> string \<Rightarrow> Page \<Rightarrow> Page" where
  "handleSpecialActions groupName buttonName pg =
     (if groupName = ''special'' \<and> buttonName = ''home'' then emit ToggleFullscreen pg else pg)"

definition handleLauncherNavigation :: "string \<Rightarrow> Page \<Rightarrow> Page" where
  "handleLauncherNavigation direction pg =
     (let pg1 = emit (LauncherNavigation direction) pg
      in if direction = ''left'' then focusIndex (focusedIndex pg1 - 1) False pg1
         else if direction = ''right'' then focusIndex (focusedIndex pg1 + 1) False pg1
         else pg1)"

definition handleLauncherAction :: "Page \<Rightarrow> Page" where
  "handleLauncherAction pg = focusIndex (focusedIndex pg) True (emit LauncherSelect pg)"

definition handleStartButton :: "Page \<Rightarrow> Page" where
  "handleStartButton pg =
     (let pg1 = emit StartButton pg
      in if 0 \<le> focusedIndex pg1 \<and> focusedIndex pg1 < int (length (games pg1))
         then showGameMenu (games pg1 ! nat (focusedIndex pg1)) pg1 else pg1)"

definition handleOSDNavigation :: "string \<Rightarrow> Page \<Rightarrow> Page" where
  "handleOSDNavigation direction pg = emit (OSDNavigation direction) pg"

definition activateFocusedOSDItem :: "Dom \<Rightarrow> Page \<Rightarrow> Page" where
  "activateFocusedOSDItem ui pg = osdClick ui (emit OSDActivate pg)"

definition handleGameMenuNavigation :: "string \<Rightarrow> Page \<Rightarrow> Page" where
  "handleGameMenuNavigation direction pg = emit (GameMenuNavigation direction) pg"

definition activateFocusedGameMenuItem :: "Dom \<Rightarrow> Page \<Rightarrow> Page" where
  "activateFocusedGameMenuItem ui pg = gameMenuClick ui (emit GameMenuActivate pg)"

definition closeGameMenu :: "Dom \<Rightarrow> Page \<Rightarrow> Page" where
  "closeGameMenu ui pg =
     (if hideGameMenuExposed ui then hideGameMenu (emit HideGameMenu pg) else pg)"

definition routeNavigation :: "string \<Rightarrow> Page \<Rightarrow> Page" where
  "routeNavigation direction pg =
     (if isGameMenuOpen pg then handleGameMenuNavigation direction pg
      else if isOSDOpen pg then handleOSDNavigation direction pg
      else handleLauncherNavigation direction pg)"

subsection \<open>processButtonGroup\<close>

text \<open>
  The loop \<open>for (let buttonName in group)\<close>. \<open>prev\<close> is the snapshot taken at the start of
  the frame, \<open>bs\<close> the state being written. The result \<open>True\<close> in the first component is
  the \<open>return\<close> in the branch that closes the configurator, which leaves the loop without
  recording the button and without visiting the remaining buttons of the group.
\<close>

definition overlayGroup :: "string \<Rightarrow> bool" where
  "overlayGroup groupName \<longleftrightarrow>
     groupName = ''dpad'' \<or> groupName = ''face'' \<or> groupName = ''shoulder''"

definition latch :: "string \<Rightarrow> string \<Rightarrow> bool \<Rightarrow> ButtonState \<Rightarrow> ButtonState" where
  "latch groupName buttonName v bs =
     (let bs1 = (if groupName = ''face'' \<and> buttonName = ''btnBottom''
                 then bs(''faceSouth'' \<mapsto> Flag v) else bs)
      in if groupName = ''face'' \<and> buttonName = ''btnRight''
         then bs1(''faceEast'' \<mapsto> Flag v) else bs1)"

definition processButton ::
  "string \<Rightarrow> nat \<Rightarrow> string \<Rightarrow> ButtonMapping \<Rightarrow> bool \<Rightarrow> ButtonState
     \<Rightarrow> ButtonState \<times> Page \<Rightarrow> bool \<times> ButtonState \<times> Page" where
  "processButton groupName controllerIndex buttonName mapping isPressed prev = (\<lambda>(bs, pg).
     (let wasPressed = truthy (prev buttonName);
          swallow = shouldSwallowFor controllerIndex pg
      in if isPressed \<and> \<not> wasPressed then
           (if swallow then (False, bs(buttonName \<mapsto> Flag isPressed), pg)
            else if isConfiguratorOpen pg \<and> groupName = ''face'' \<and> buttonName = ''btnRight''
              then (True, bs(''faceEast'' \<mapsto> Flag True), closeConfigurator pg)
            else if isAnyOverlayOpen pg \<and> overlayGroup groupName
              then (False, (latch groupName buttonName True bs)(buttonName \<mapsto> Flag isPressed), pg)
            else (False, bs(buttonName \<mapsto> Flag isPressed),
                  handleSpecialActions groupName buttonName
                    (dispatchKeyboardEvent ''keydown'' mapping pg)))
         else if \<not> isPressed \<and> wasPressed then
           (if swallow then (False, bs(buttonName \<mapsto> Flag isPressed), pg)
            else if isAnyOverlayOpen pg \<and> overlayGroup groupName
              then (False, (latch groupName buttonName False bs)(buttonName \<mapsto> Flag isPressed), pg)
            else (False, bs(buttonName \<mapsto> Flag isPressed),
                  dispatchKeyboardEvent ''keyup'' mapping pg))
         else (False, bs(buttonName \<mapsto> Flag isPressed), pg)))"

fun processButtons ::
  "string \<Rightarrow> Group \<Rightarrow> Controller \<Rightarrow> nat \<Rightarrow> ButtonState
     \<Rightarrow> ButtonState \<times> Page \<Rightarrow> ButtonState \<times> Page" where
  "processButtons groupName [] c controllerIndex prev sp = sp"
| "processButtons groupName ((buttonName, mapping) # rest) c controllerIndex prev sp =
     (case buttonAt c (gamepadButton mapping) of
        None \<Rightarrow> processButtons groupName rest c controllerIndex prev sp
      | Some isPressed \<Rightarrow>
          (case processButton groupName controllerIndex buttonName mapping isPressed prev sp of
             (True, bs', pg') \<Rightarrow> (bs', pg')
           | (False, bs', pg') \<Rightarrow> processButtons groupName rest c controllerIndex prev (bs', pg')))"

definition groupOf :: "Mapping \<Rightarrow> string \<Rightarrow> Group" where
  "groupOf m groupName =
     (if groupName = ''dpad'' then dpad m
      else if groupName = ''face'' then face m
      else if groupName = ''shoulder'' then shoulder m
      else if groupName = ''special'' then special m
      else [])"

definition processButtonGroup ::
  "Mapping \<Rightarrow> string \<Rightarrow> Controller \<Rightarrow> nat \<Rightarrow> ButtonState
     \<Rightarrow> ButtonState \<times> Page \<Rightarrow> ButtonState \<times> Page" where
  "processButtonGroup currentMapping groupName c controllerIndex prev sp =
     processButtons groupName (groupOf currentMapping groupName) c controllerIndex prev sp"

subsection \<open>Analog sticks\<close>

definition applyDeadzone :: "real \<Rightarrow> real" where
  "applyDeadzone v = (if \<bar>v\<bar> > 0.15 then v else 0)"

definition stickFlag :: "bval option \<Rightarrow> (bool \<times> bool \<times> bool \<times> bool)" where
  "stickFlag v =
     (case v of
        Some (Stick l r u d) \<Rightarrow> (l, r, u, d)
      | _ \<Rightarrow> (False, False, False, False))"

definition processAnalogToDigital ::
  "real \<times> real \<Rightarrow> nat \<Rightarrow> string \<Rightarrow> ButtonState \<times> Page \<Rightarrow> ButtonState \<times> Page" where
  "processAnalogToDigital stick controllerIndex stickName = (\<lambda>(bs, pg).
     (let x = fst stick; y = snd stick;
          leftPressed = (x < - 0.5); rightPressed = (x > 0.5);
          upPressed = (y < - 0.5); downPressed = (y > 0.5);
          now = Stick leftPressed rightPressed upPressed downPressed
      in if shouldSwallowFor controllerIndex pg then (bs(stickName \<mapsto> now), pg)
         else
           (case stickFlag (bs stickName) of
              (wasLeft, wasRight, wasUp, wasDown) \<Rightarrow>
                (let pg1 = (if leftPressed \<and> \<not> wasLeft then routeNavigation ''left'' pg else pg);
                     pg2 = (if rightPressed \<and> \<not> wasRight then routeNavigation ''right'' pg1 else pg1);
                     pg3 = (if upPressed \<and> \<not> wasUp then routeNavigation ''up'' pg2 else pg2);
                     pg4 = (if downPressed \<and> \<not> wasDown then routeNavigation ''down'' pg3 else pg3)
                 in (bs(stickName \<mapsto> now), pg4)))))"

definition processAnalogSticks ::
  "Controller \<Rightarrow> nat \<Rightarrow> ButtonState \<times> Page \<Rightarrow> ButtonState \<times> Page" where
  "processAnalogSticks c controllerIndex sp =
     (if length (axes c) < 4 then sp
      else
        (let leftStick = (applyDeadzone (axes c ! 0), applyDeadzone (axes c ! 1));
             rightStick = (applyDeadzone (axes c ! 2), applyDeadzone (axes c ! 3))
         in processAnalogToDigital rightStick controllerIndex ''rightStick''
              (processAnalogToDigital leftStick controllerIndex ''leftStick'' sp)))"

subsection \<open>Launcher, OSD and game menu controls\<close>

text \<open>
  The recurring shape \<open>if (pressed && !prev.flag) { act; state.flag = true } else if
  (!pressed) { state.flag = false }\<close>.
\<close>

definition edge ::
  "bool \<Rightarrow> bool \<Rightarrow> string \<Rightarrow> (Page \<Rightarrow> Page) \<Rightarrow> ButtonState \<times> Page \<Rightarrow> ButtonState \<times> Page" where
  "edge pressed wasSet flagName act = (\<lambda>(bs, pg).
     (if pressed \<and> \<not> wasSet then (bs(flagName \<mapsto> Flag True), act pg)
      else if \<not> pressed then (bs(flagName \<mapsto> Flag False), pg)
      else (bs, pg)))"

text \<open>\<open>group.name.gamepadButton\<close>: \<open>None\<close> is the \<open>TypeError\<close> of reading a property of
  \<open>undefined\<close>, which ends the frame and with it the polling loop.\<close>

definition buttonOf :: "Group \<Rightarrow> string \<Rightarrow> jsnum option" where
  "buttonOf g n = map_option gamepadButton (map_of g n)"

definition processLauncherControls ::
  "Mapping \<Rightarrow> Controller \<Rightarrow> nat \<Rightarrow> ButtonState \<Rightarrow> ButtonState \<times> Page
     \<Rightarrow> (ButtonState \<times> Page) option" where
  "processLauncherControls m c controllerIndex prev sp =
     (if playing (snd sp) then Some sp
      else if isAnyOverlayOpen (snd sp) then Some sp
      else if shouldSwallowFor controllerIndex (snd sp) then Some sp
      else
        (case buttonOf (dpad m) ''left'' of None \<Rightarrow> None | Some l \<Rightarrow>
         (case buttonOf (dpad m) ''right'' of None \<Rightarrow> None | Some r \<Rightarrow>
          (case buttonOf (face m) ''btnBottom'' of None \<Rightarrow> None | Some a \<Rightarrow>
           (case buttonOf (special m) ''start'' of None \<Rightarrow> None | Some s \<Rightarrow>
              Some
                (edge (pressedAt c s) (truthy (prev ''startPressed'')) ''startPressed'' handleStartButton
                  (edge (pressedAt c a) (truthy (prev ''faceSouth'')) ''faceSouth'' handleLauncherAction
                    (edge (pressedAt c r) (truthy (prev ''dpadRight'')) ''dpadRight''
                       (handleLauncherNavigation ''right'')
                      (edge (pressedAt c l) (truthy (prev ''dpadLeft'')) ''dpadLeft''
                         (handleLauncherNavigation ''left'') sp)))))))))"

definition processOSDControls ::
  "Dom \<Rightarrow> Mapping \<Rightarrow> Controller \<Rightarrow> nat \<Rightarrow> ButtonState \<Rightarrow> ButtonState \<times> Page
     \<Rightarrow> (ButtonState \<times> Page) option" where
  "processOSDControls ui m c controllerIndex prev sp =
     (if shouldSwallowFor controllerIndex (snd sp) then Some sp
      else
        (case buttonOf (special m) ''select'' of None \<Rightarrow> None | Some sel \<Rightarrow>
         (case buttonOf (dpad m) ''down'' of None \<Rightarrow> None | Some dn \<Rightarrow>
            if \<not> isOSDOpen (snd sp) then
              Some (edge (pressedAt c sel \<and> pressedAt c dn) (truthy (prev ''osdCombo'')) ''osdCombo''
                      (\<lambda>pg. toggleOSD True (emit (ToggleOSD True) pg)) sp)
            else
              (case buttonOf (dpad m) ''up'' of None \<Rightarrow> None | Some up \<Rightarrow>
               (case buttonOf (face m) ''btnBottom'' of None \<Rightarrow> None | Some a \<Rightarrow>
                (case buttonOf (face m) ''btnRight'' of None \<Rightarrow> None | Some b \<Rightarrow>
                   Some
                     (edge (pressedAt c b) (truthy (prev ''faceEast'')) ''faceEast''
                        (\<lambda>pg. toggleOSD False (emit (ToggleOSD False) pg))
                       (edge (pressedAt c a) (truthy (prev ''faceSouth'')) ''faceSouth''
                          (activateFocusedOSDItem ui)
                         (edge (pressedAt c dn) (truthy (prev ''dpadDown'')) ''dpadDown''
                            (handleOSDNavigation ''down'')
                           (edge (pressedAt c up) (truthy (prev ''dpadUp'')) ''dpadUp''
                              (handleOSDNavigation ''up'') sp))))))))))"

text \<open>The two steps of the game menu that latch more than one flag.\<close>

definition gmActivate ::
  "Dom \<Rightarrow> bool \<Rightarrow> bool \<Rightarrow> ButtonState \<times> Page \<Rightarrow> ButtonState \<times> Page" where
  "gmActivate ui pressed wasSet = (\<lambda>(bs, pg).
     (if pressed \<and> \<not> wasSet
      then (bs(''gmFaceSouth'' \<mapsto> Flag True, ''faceSouth'' \<mapsto> Flag True),
            activateFocusedGameMenuItem ui pg)
      else if \<not> pressed
      then (bs(''gmFaceSouth'' \<mapsto> Flag False, ''faceSouth'' \<mapsto> Flag False), pg)
      else (bs, pg)))"

definition gmClose ::
  "Dom \<Rightarrow> bool \<Rightarrow> bool \<Rightarrow> bool \<Rightarrow> ButtonState \<times> Page \<Rightarrow> ButtonState \<times> Page" where
  "gmClose ui bPressed startPressed wasSet = (\<lambda>(bs, pg).
     (if (bPressed \<or> startPressed) \<and> \<not> wasSet
      then (let bs1 = bs(''gmClose'' \<mapsto> Flag True);
                bs2 = (if bPressed then bs1(''faceEast'' \<mapsto> Flag True) else bs1);
                bs3 = (if startPressed then bs2(''startPressed'' \<mapsto> Flag True) else bs2)
            in (bs3, closeGameMenu ui pg))
      else if \<not> (bPressed \<or> startPressed)
      then (bs(''gmClose'' \<mapsto> Flag False, ''faceEast'' \<mapsto> Flag False,
               ''startPressed'' \<mapsto> Flag False), pg)
      else (bs, pg)))"

definition processGameMenuControls ::
  "Dom \<Rightarrow> Mapping \<Rightarrow> Controller \<Rightarrow> nat \<Rightarrow> ButtonState \<Rightarrow> ButtonState \<times> Page
     \<Rightarrow> (ButtonState \<times> Page) option" where
  "processGameMenuControls ui m c controllerIndex prev sp =
     (if shouldSwallowFor controllerIndex (snd sp) then Some sp
      else if \<not> isGameMenuOpen (snd sp) then Some sp
      else
        (case buttonOf (dpad m) ''up'' of None \<Rightarrow> None | Some up \<Rightarrow>
         (case buttonOf (dpad m) ''down'' of None \<Rightarrow> None | Some dn \<Rightarrow>
          (case buttonOf (face m) ''btnBottom'' of None \<Rightarrow> None | Some a \<Rightarrow>
           (case buttonOf (face m) ''btnRight'' of None \<Rightarrow> None | Some b \<Rightarrow>
            (case buttonOf (special m) ''start'' of None \<Rightarrow> None | Some s \<Rightarrow>
               Some
                 (gmClose ui (pressedAt c b) (pressedAt c s) (truthy (prev ''gmClose''))
                   (gmActivate ui (pressedAt c a) (truthy (prev ''gmFaceSouth''))
                     (edge (pressedAt c dn) (truthy (prev ''gmDpadDown'')) ''gmDpadDown''
                        (handleGameMenuNavigation ''down'')
                       (edge (pressedAt c up) (truthy (prev ''gmDpadUp'')) ''gmDpadUp''
                          (handleGameMenuNavigation ''up'') sp))))))))))"

subsection \<open>processInputs\<close>

text \<open>
  \<open>controllers\<close> and \<open>buttonState\<close> have the same keys (\<open>addGamepad\<close> and \<open>removeGamepad\<close>
  write both), so the manager's controllers are kept as one list of index, controller
  and button state, in the order of \<open>for (let controllerIndex in this.controllers)\<close>.
\<close>

type_synonym Pad = "nat \<times> Controller \<times> ButtonState"

definition overlayEdges :: "Page \<Rightarrow> Page" where
  "overlayEdges pg =
     (let osd = isOSDOpen pg;
          pg1 = (if osd \<and> \<not> wasOSDOpen pg then emit InitOSDFocus pg else pg) \<lparr> wasOSDOpen := osd \<rparr>;
          gm = isGameMenuOpen pg1;
          pg2 = (if gm \<and> \<not> wasGameMenuOpen pg1 then emit InitGameMenuFocus pg1 else pg1)
      in pg2 \<lparr> wasGameMenuOpen := gm \<rparr>)"

definition processController ::
  "Dom \<Rightarrow> Mapping \<Rightarrow> Pad \<Rightarrow> Page \<Rightarrow> (ButtonState \<times> Page) option" where
  "processController ui m pad pg0 =
     (case pad of (controllerIndex, c, bs) \<Rightarrow>
        (let prevButtonState = bs;
             sp1 = processButtonGroup m ''dpad'' c controllerIndex prevButtonState (bs, overlayEdges pg0);
             sp2 = processButtonGroup m ''face'' c controllerIndex prevButtonState sp1;
             sp3 = processButtonGroup m ''shoulder'' c controllerIndex prevButtonState sp2;
             sp4 = processButtonGroup m ''special'' c controllerIndex prevButtonState sp3;
             sp5 = processAnalogSticks c controllerIndex sp4
         in case processLauncherControls m c controllerIndex prevButtonState sp5 of
              None \<Rightarrow> None
            | Some sp6 \<Rightarrow>
                (case processOSDControls ui m c controllerIndex prevButtonState sp6 of
                   None \<Rightarrow> None
                 | Some sp7 \<Rightarrow> processGameMenuControls ui m c controllerIndex prevButtonState sp7)))"

fun processInputs :: "Dom \<Rightarrow> Mapping \<Rightarrow> Pad list \<Rightarrow> Page \<Rightarrow> (Pad list \<times> Page) option" where
  "processInputs ui m [] pg = Some ([], pg)"
| "processInputs ui m ((controllerIndex, c, bs) # rest) pg =
     (case processController ui m (controllerIndex, c, bs) pg of
        None \<Rightarrow> None
      | Some (bs', pg') \<Rightarrow>
          (case processInputs ui m rest pg' of
             None \<Rightarrow> None
           | Some (rest', pg'') \<Rightarrow> Some ((controllerIndex, c, bs') # rest', pg'')))"

text \<open>
  One animation frame for the connected controllers: \<open>scanGamepads\<close> stores the fresh
  snapshot of each controller, then \<open>processInputs\<close> runs. \<open>frames\<close> feeds a sequence of
  snapshots of one controller through the loop.
\<close>

definition scanGamepads :: "(nat \<Rightarrow> Controller option) \<Rightarrow> Pad list \<Rightarrow> Pad list" where
  "scanGamepads gamepads pads =
     map (\<lambda>(i, c, bs). (i, (case gamepads i of Some c' \<Rightarrow> c' | None \<Rightarrow> c), bs)) pads"

fun frames :: "Dom \<Rightarrow> Mapping \<Rightarrow> nat \<Rightarrow> Controller list \<Rightarrow> ButtonState \<times> Page
     \<Rightarrow> (ButtonState \<times> Page) option" where
  "frames ui m controllerIndex [] sp = Some sp"
| "frames ui m controllerIndex (c # cs) sp =
     (case processController ui m (controllerIndex, c, fst sp) (snd sp) of
        None \<Rightarrow> None
      | Some sp' \<Rightarrow> frames ui m controllerIndex cs sp')"

text \<open>A standard controller: seventeen buttons, the listed ones held, four axes at rest.\<close>

definition standardPad :: "nat list \<Rightarrow> Controller" where
  "standardPad held = \<lparr> buttons = map (\<lambda>i. i \<in> set held) [0..<17], axes = [0, 0, 0, 0] \<rparr>"

definition sampleDom :: Dom where
  "sampleDom = \<lparr> osdClick = (\<lambda>pg. pg), gameMenuClick = (\<lambda>pg. pg), hideGameMenuExposed = True \<rparr>"

text \<open>The page while a game is being played.\<close>

definition playingPage :: Page where
  "playingPage = initialPage \<lparr> playing := True \<rparr>"

text \<open>The page while the configurator is open with live testing switched on.\<close>

definition testingPage :: Page where
  "testingPage = initialPage \<lparr> configuratorOpen := True, testingMode := True \<rparr>"

text \<open>The actions that route an input: everything but the two focus initialisations,
  which follow the opening of an overlay and not a button.\<close>

fun routed :: "action \<Rightarrow> bool" where
  "routed InitOSDFocus = False"
| "routed InitGameMenuFocus = False"
| "routed _ = True"

text \<open>\<open>quiet pg pg'\<close>: from \<open>pg\<close> to \<open>pg'\<close> nothing was routed. The trace grew by focus
  initialisations at most, and the list, the focus, the game being played, the overlays
  and the configurator are as they were.\<close>

definition quiet :: "Page \<Rightarrow> Page \<Rightarrow> bool" where
  "quiet pg pg' \<longleftrightarrow>
     (\<exists>new. trace pg' = trace pg @ new \<and> (\<forall>a \<in> set new. \<not> routed a))
     \<and> games pg' = games pg \<and> focusedIndex pg' = focusedIndex pg
     \<and> currentGame pg' = currentGame pg \<and> playing pg' = playing pg
     \<and> osdOpen pg' = osdOpen pg \<and> gameMenuOpen pg' = gameMenuOpen pg
     \<and> menuGame pg' = menuGame pg
     \<and> configuratorOpen pg' = configuratorOpen pg \<and> testingMode pg' = testingMode pg"

section \<open>Properties of the library store\<close>

lemma scanDir_ids: "map id' (scanDir d es) = map fst (filter (\<lambda>(n, e). isDirectory e) es)"
  by (induction d es rule: scanDir.induct) (simp_all add: gameEntry_def)

lemma scanDir_entries: "e \<in> set (scanDir d es) \<Longrightarrow> e = gameEntry d (id' e)"
  by (induction d es rule: scanDir.induct) (auto simp: gameEntry_def split: if_splits)

lemma mset_insertBy: "mset (insertBy cmp x ys) = add_mset x (mset ys)"
  by (induction ys) simp_all

lemma mset_sortBy: "mset (sortBy cmp xs) = mset xs"
  by (induction xs) (simp_all add: sortBy_def mset_insertBy)

lemma set_insertBy: "set (insertBy cmp x ys) = insert x (set ys)"
  by (induction ys) auto

lemma set_sortBy: "set (sortBy cmp xs) = set xs"
  by (induction xs) (simp_all add: sortBy_def set_insertBy)

lemma sorted_insertBy:
  assumes tot: "\<And>a b. cmp a b \<le> 0 \<or> cmp b a \<le> 0"
      and tr: "\<And>a b c. cmp a b \<le> 0 \<Longrightarrow> cmp b c \<le> 0 \<Longrightarrow> cmp a c \<le> 0"
      and srt: "sorted_wrt (\<lambda>a b. cmp a b \<le> 0) ys"
  shows "sorted_wrt (\<lambda>a b. cmp a b \<le> 0) (insertBy cmp x ys)"
  using srt
proof (induction ys)
  case Nil
  then show ?case by simp
next
  case (Cons y ys)
  show ?case
  proof (cases "cmp x y \<le> 0")
    case True
    have "\<forall>z \<in> set ys. cmp x z \<le> 0"
      using Cons.prems True tr by auto
    with True Cons.prems show ?thesis by simp
  next
    case False
    then have yx: "cmp y x \<le> 0" using tot [of x y] by simp
    have "sorted_wrt (\<lambda>a b. cmp a b \<le> 0) (insertBy cmp x ys)"
      using Cons by simp
    with False yx Cons.prems show ?thesis
      by (simp add: set_insertBy)
  qed
qed

lemma sorted_sortBy:
  assumes tot: "\<And>a b. cmp a b \<le> 0 \<or> cmp b a \<le> 0"
      and tr: "\<And>a b c. cmp a b \<le> 0 \<Longrightarrow> cmp b c \<le> 0 \<Longrightarrow> cmp a c \<le> 0"
  shows "sorted_wrt (\<lambda>a b. cmp a b \<le> 0) (sortBy cmp xs)"
proof (induction xs)
  case Nil
  then show ?case by (simp add: sortBy_def)
next
  case (Cons x xs)
  have "sortBy cmp (x # xs) = insertBy cmp x (sortBy cmp xs)"
    by (simp add: sortBy_def)
  moreover have "sorted_wrt (\<lambda>a b. cmp a b \<le> 0) (insertBy cmp x (sortBy cmp xs))"
    using tot tr Cons by (rule sorted_insertBy)
  ultimately show ?case by simp
qed

lemma subdirectory_iff:
  assumes "distinct (map fst d)"
  shows "i \<in> set (map fst (filter (\<lambda>(n, e). isDirectory e) d)) \<longleftrightarrow> (\<exists>k. map_of d i = Some (Dir k))"
proof
  assume "i \<in> set (map fst (filter (\<lambda>(n, e). isDirectory e) d))"
  then obtain e where mem: "(i, e) \<in> set d" and dir: "isDirectory e" by auto
  from mem assms have "map_of d i = Some e" by simp
  moreover from dir obtain k where "e = Dir k" by (cases e) simp_all
  ultimately show "\<exists>k. map_of d i = Some (Dir k)" by simp
next
  assume "\<exists>k. map_of d i = Some (Dir k)"
  then obtain k where "map_of d i = Some (Dir k)" ..
  then have "(i, Dir k) \<in> set d" by (rule map_of_SomeD)
  then show "i \<in> set (map fst (filter (\<lambda>(n, e). isDirectory e) d))" by force
qed

lemma thumbnailPresent_iff:
  "thumbnailPresent d i \<longleftrightarrow>
     (\<exists>k b. map_of d i = Some (Dir k) \<and> map_of k ''thumbnail.png'' = Some (File b))"
  by (auto simp: thumbnailPresent_def split: option.splits node.splits)

lemma consistent_compareCodeUnits: "consistentCompare compareCodeUnits"
  unfolding consistentCompare_def compareCodeUnits_def
  by (auto split: if_splits)

text \<open>
  C1. For every state of the library root, \<open>listGames()\<close> returns (never throws, as long
  as the root exists) exactly one entry per immediate sub-directory and none for any other
  entry; the result is sorted by display name under the comparator \<open>localeCompare\<close>
  (any consistent comparator); every entry's display name is the id with \<open>-\<close> and \<open>_\<close>
  turned into spaces, and \<open>hasThumbnail\<close> holds exactly when \<open>thumbnail.png\<close> exists in
  that sub-directory and is a regular file. A failing stat counts as absence.
\<close>

theorem listGames_one_entry_per_directory_sorted:
  assumes cons: "consistentCompare lc"
      and dist: "distinct (map fst d)"
  shows "\<exists>es. listGames lc (Some d) = Inr es
           \<and> (\<forall>i. count (mset (map id' es)) i = (if (\<exists>k. map_of d i = Some (Dir k)) then 1 else 0))
           \<and> sorted_wrt (\<lambda>a b. lc (name a) (name b) \<le> 0) es
           \<and> (\<forall>e \<in> set es. name e = displayName (id' e)
                 \<and> urlPath e = ''/games/'' @ id' e @ ''/''
                 \<and> (hasThumbnail e \<longleftrightarrow>
                      (\<exists>k b. map_of d (id' e) = Some (Dir k)
                             \<and> map_of k ''thumbnail.png'' = Some (File b))))"
proof -
  let ?cmp = "\<lambda>a b. lc (name a) (name b)"
  let ?es = "sortBy ?cmp (scanDir d d)"
  let ?dirs = "map fst (filter (\<lambda>(n, e). isDirectory e) d)"
  have run: "listGames lc (Some d) = Inr ?es"
    by (simp add: listGames_def)
  have "mset (map id' ?es) = mset (map id' (scanDir d d))"
    by (simp add: mset_sortBy)
  then have ids: "mset (map id' ?es) = mset ?dirs"
    by (simp add: scanDir_ids)
  have "distinct ?dirs"
    using dist by (simp add: distinct_map_filter)
  then have cnt: "\<forall>i. count (mset ?dirs) i = (if i \<in> set ?dirs then 1 else 0)"
    unfolding distinct_count_atmost_1 .
  have one: "\<forall>i. count (mset (map id' ?es)) i = (if (\<exists>k. map_of d i = Some (Dir k)) then 1 else 0)"
  proof
    fix i
    have "count (mset (map id' ?es)) i = count (mset ?dirs) i"
      by (simp only: ids)
    also have "\<dots> = (if i \<in> set ?dirs then 1 else 0)"
      using cnt by blast
    also have "\<dots> = (if (\<exists>k. map_of d i = Some (Dir k)) then 1 else 0)"
      by (simp only: subdirectory_iff [OF dist])
    finally show "count (mset (map id' ?es)) i = (if (\<exists>k. map_of d i = Some (Dir k)) then 1 else 0)" .
  qed
  have tot: "\<And>a b. ?cmp a b \<le> 0 \<or> ?cmp b a \<le> 0"
    using cons by (simp add: consistentCompare_def)
  have tr: "\<And>a b c. ?cmp a b \<le> 0 \<Longrightarrow> ?cmp b c \<le> 0 \<Longrightarrow> ?cmp a c \<le> 0"
    using cons unfolding consistentCompare_def by blast
  have srt: "sorted_wrt (\<lambda>a b. ?cmp a b \<le> 0) ?es"
    using tot tr by (rule sorted_sortBy)
  have ent: "\<forall>e \<in> set ?es. name e = displayName (id' e)
                 \<and> urlPath e = ''/games/'' @ id' e @ ''/''
                 \<and> (hasThumbnail e \<longleftrightarrow>
                      (\<exists>k b. map_of d (id' e) = Some (Dir k)
                             \<and> map_of k ''thumbnail.png'' = Some (File b)))"
  proof
    fix e assume "e \<in> set ?es"
    then have "e \<in> set (scanDir d d)" by (simp add: set_sortBy)
    then have "e = gameEntry d (id' e)" by (rule scanDir_entries)
    then have "name e = displayName (id' e)" "urlPath e = ''/games/'' @ id' e @ ''/''"
      "hasThumbnail e = thumbnailPresent d (id' e)"
      by (metis GameEntry.select_convs gameEntry_def)+
    then show "name e = displayName (id' e)
                 \<and> urlPath e = ''/games/'' @ id' e @ ''/''
                 \<and> (hasThumbnail e \<longleftrightarrow>
                      (\<exists>k b. map_of d (id' e) = Some (Dir k)
                             \<and> map_of k ''thumbnail.png'' = Some (File b)))"
      by (simp add: thumbnailPresent_iff)
  qed
  from run one srt ent show ?thesis by blast
qed

theorem listGames_one_entry_per_directory_sorted_witness:
  "consistentCompare compareCodeUnits \<and> distinct (map fst sampleLibrary) \<and>
   (\<exists>es. listGames compareCodeUnits (Some sampleLibrary) = Inr es
           \<and> (\<forall>i. count (mset (map id' es)) i = (if (\<exists>k. map_of sampleLibrary i = Some (Dir k)) then 1 else 0))
           \<and> sorted_wrt (\<lambda>a b. compareCodeUnits (name a) (name b) \<le> 0) es
           \<and> (\<forall>e \<in> set es. name e = displayName (id' e)
                 \<and> urlPath e = ''/games/'' @ id' e @ ''/''
                 \<and> (hasThumbnail e \<longleftrightarrow>
                      (\<exists>k b. map_of sampleLibrary (id' e) = Some (Dir k)
                             \<and> map_of k ''thumbnail.png'' = Some (File b)))))"
proof -
  have c: "consistentCompare compareCodeUnits" by (rule consistent_compareCodeUnits)
  have d: "distinct (map fst sampleLibrary)" by (simp add: sampleLibrary_def)
  from c d listGames_one_entry_per_directory_sorted [OF c d] show ?thesis by blast
qed

text \<open>The scenario of the specification: folders \<open>space-runner\<close> and \<open>puzzle_box\<close> (and a
  stray file) are listed as \<open>puzzle box\<close>, then \<open>space runner\<close>.\<close>

lemma listGames_sampleLibrary:
  "listGames compareCodeUnits (Some sampleLibrary) =
     Inr [\<lparr> id' = ''puzzle_box'', name = ''puzzle box'', path = [''puzzle_box''],
            urlPath = ''/games/puzzle_box/'', hasThumbnail = False \<rparr>,
          \<lparr> id' = ''space-runner'', name = ''space runner'', path = [''space-runner''],
            urlPath = ''/games/space-runner/'', hasThumbnail = True \<rparr>]"
  by (simp add: listGames_def sampleLibrary_def sortBy_def gameEntry_def displayName_def
      thumbnailPresent_def compareCodeUnits_def)

section \<open>Properties of the HTTP routes\<close>

lemma splitOn_not_Nil: "splitOn c s \<noteq> []"
  by (induction s) (auto split: list.splits)

lemma hd_splitOn: "hd (splitOn c s) = takeWhile (\<lambda>x. x \<noteq> c) s"
  by (induction s) (auto split: list.splits simp: splitOn_not_Nil)

lemma splitOn_api_games:
  "splitOn CHR ''/'' (''/api/games/'' @ t) = [[], ''api'', ''games''] @ splitOn CHR ''/'' t"
  by (simp split: list.splits add: splitOn_not_Nil)

lemma segment3_api_games:
  "segment3 (''/api/games/'' @ t) = Some (takeWhile (\<lambda>x. x \<noteq> CHR ''/'') t)"
proof -
  obtain w ws where "splitOn CHR ''/'' t = w # ws"
    using splitOn_not_Nil by (cases "splitOn CHR ''/'' t") auto
  moreover from this have "w = takeWhile (\<lambda>x. x \<noteq> CHR ''/'') t"
    using hd_splitOn [of "CHR ''/''" t] by simp
  ultimately show ?thesis
    unfolding segment3_def splitOn_api_games by simp
qed

lemma stat_resolveBase: "stat ex (resolveBase ex sh) = spec_source ex sh"
  apply (cases ex)
   apply (simp add: resolveBase_def spec_source_def spec_effectiveRoot_def Let_def)
  subgoal for a list
    apply (cases a; cases list)
    apply (auto simp add: resolveBase_def spec_source_def spec_effectiveRoot_def Let_def split: node.splits option.splits)
    done
  done

lemma takeWhile_segment:
  "CHR ''/'' \<notin> set i \<Longrightarrow> takeWhile (\<lambda>x. x \<noteq> CHR ''/'') (i @ CHR ''/'' # rest) = i"
  by (induction i) auto

lemma takeWhile_whole:
  "CHR ''/'' \<notin> set i \<Longrightarrow> takeWhile (\<lambda>x. x \<noteq> CHR ''/'') i = i"
  by (induction i) auto

lemma handleApi_DELETE:
  assumes "reqMethod req = ''DELETE''" and "pathname req = ''/api/games/'' @ t"
  shows "handleApi env req st = apiDelete req st"
  using assms by (simp add: handleApi_def)

lemma apiDelete_id:
  assumes "pathname req = ''/api/games/'' @ t"
      and "takeWhile (\<lambda>x. x \<noteq> CHR ''/'') t = i" and "i \<noteq> []"
  shows "apiDelete req (Some d) =
           (case map_of d i of
              Some (Dir k) \<Rightarrow> (Response 200 Ok, Some (AList.delete i d), [])
            | _ \<Rightarrow> (Response 404 (Text ''not found''), Some d, []))"
  unfolding apiDelete_def assms(1) segment3_api_games assms(2)
  using assms(3)
  by (simp add: joinGames_def statGames_def
      removeRecursive_def textResponse_def split: option.splits node.splits)

lemma apiDelete_root_gone:
  assumes "pathname req = ''/api/games/'' @ t"
  shows "apiDelete req None = (Response 404 (Text ''not found''), None, [])"
  unfolding apiDelete_def assms segment3_api_games
  by (simp add: statGames_def textResponse_def)

text \<open>
  \<open>DELETE /api/games/:id\<close> for an id that can name a directory entry (non-empty, no
  \<open>/\<close>): when the id is not an existing directory below the games root (absent, a
  regular file, or the root itself is gone) the answer is 404 and the library is
  unchanged; when it is an existing directory the answer is 200 \<open>{ ok: true }\<close>, that
  entry is gone with all it held, and every other entry is as it was.
\<close>

lemma delete_named_game:
  assumes m: "reqMethod req = ''DELETE''"
      and p: "pathname req = ''/api/games/'' @ i"
      and i: "i \<noteq> []" "CHR ''/'' \<notin> set i"
  shows "(\<forall>d k. st = Some d \<and> map_of d i = Some (Dir k) \<longrightarrow>
            handleApi env req st = (Response 200 Ok, Some (AList.delete i d), [])
            \<and> map_of (AList.delete i d) i = None
            \<and> (\<forall>j. j \<noteq> i \<longrightarrow> map_of (AList.delete i d) j = map_of d j))
       \<and> (\<not> (\<exists>d k. st = Some d \<and> map_of d i = Some (Dir k)) \<longrightarrow>
            handleApi env req st = (Response 404 (Text ''not found''), st, []))"
proof (cases st)
  case None
  then show ?thesis
    using handleApi_DELETE [OF m p] apiDelete_root_gone [OF p] by simp
next
  case (Some d)
  have "apiDelete req (Some d) =
           (case map_of d i of
              Some (Dir k) \<Rightarrow> (Response 200 Ok, Some (AList.delete i d), [])
            | _ \<Rightarrow> (Response 404 (Text ''not found''), Some d, []))"
    using p takeWhile_whole [OF i(2)] i(1) by (rule apiDelete_id)
  then show ?thesis
    using Some handleApi_DELETE [OF m p, of env st]
    by (auto simp: delete_conv' split: option.splits node.splits)
qed

lemma delete_named_game_example:
  "handleApi sampleEnv (sampleRequest ''DELETE'' ''/api/games/puzzle_box'') (Some sampleLibrary)
     = (Response 200 Ok, Some (AList.delete ''puzzle_box'' sampleLibrary), [])
   \<and> handleApi sampleEnv (sampleRequest ''DELETE'' ''/api/games/README.md'') (Some sampleLibrary)
     = (Response 404 (Text ''not found''), Some sampleLibrary, [])"
proof -
  have a: "handleApi sampleEnv (sampleRequest ''DELETE'' ''/api/games/puzzle_box'') (Some sampleLibrary)
     = (Response 200 Ok, Some (AList.delete ''puzzle_box'' sampleLibrary), [])"
    using delete_named_game [of "sampleRequest ''DELETE'' ''/api/games/puzzle_box''" "''puzzle_box''"
        "Some sampleLibrary" sampleEnv]
    by (simp add: sampleRequest_def sampleLibrary_def)
  have b: "handleApi sampleEnv (sampleRequest ''DELETE'' ''/api/games/README.md'') (Some sampleLibrary)
     = (Response 404 (Text ''not found''), Some sampleLibrary, [])"
    using delete_named_game [of "sampleRequest ''DELETE'' ''/api/games/README.md''" "''README.md''"
        "Some sampleLibrary" sampleEnv]
    by (simp add: sampleRequest_def sampleLibrary_def)
  from a b show ?thesis by simp
qed

lemma delete_empty_segment:
  "handleApi env (sampleRequest ''DELETE'' ''/api/games/'') (Some d) = (Response 200 Ok, None, [])"
  by (simp add: handleApi_def sampleRequest_def apiDelete_def segment3_def joinGames_def
      statGames_def removeRecursive_def)

text \<open>
  C3. \<open>DELETE /api/games/:id\<close> with the empty id, \<open>DELETE /api/games/\<close>. No entry of the
  library has the empty name, so the id does not correspond to an existing directory
  under the games root, and the answer should be 404 with the library unchanged. The
  third segment of the path is the empty string, joining it to the games root gives the
  games root itself, \<open>stat\<close> finds a directory there and the guard passes: the answer is
  200 \<open>{ ok: true }\<close> and the games root is removed with every game in it.
\<close>

theorem delete_empty_id_removes_library:
  "map_of sampleLibrary [] = None
   \<and> segment3 ''/api/games/'' = Some []
   \<and> joinGames [] = []
   \<and> handleApi sampleEnv (sampleRequest ''DELETE'' ''/api/games/'') (Some sampleLibrary)
       = (Response 200 Ok, None, [])"
  by (simp add: sampleLibrary_def handleApi_def sampleRequest_def apiDelete_def segment3_def
      joinGames_def statGames_def removeRecursive_def)

lemma apiDelete_routes: "fst (apiDelete req st) \<noteq> NoRoute"
  by (simp add: apiDelete_def textResponse_def Let_def split: option.splits node.splits sum.splits)

text \<open>
  C9. The delete route matches every \<open>DELETE\<close> request whose path starts with
  \<open>/api/games/\<close>: such a request is never left to the other routes, and the id is always
  the third path segment, whatever follows it. So \<open>DELETE /api/games/<id>/thumbnail\<close>
  (or any other tail) on an existing game directory removes the whole directory and
  answers 200.
\<close>

theorem delete_matches_prefix:
  assumes m: "reqMethod req = ''DELETE''"
      and p: "pathname req = ''/api/games/'' @ t"
  shows "fst (handleApi env req st) \<noteq> NoRoute
       \<and> segment3 (pathname req) = Some (takeWhile (\<lambda>x. x \<noteq> CHR ''/'') t)
       \<and> (\<forall>i rest d k. t = i @ CHR ''/'' # rest \<and> i \<noteq> [] \<and> CHR ''/'' \<notin> set i
              \<and> st = Some d \<and> map_of d i = Some (Dir k) \<longrightarrow>
            handleApi env req st = (Response 200 Ok, Some (AList.delete i d), [])
            \<and> map_of (AList.delete i d) i = None)"
proof -
  have h: "handleApi env req st = apiDelete req st"
    using m p by (rule handleApi_DELETE)
  have r: "fst (handleApi env req st) \<noteq> NoRoute"
    unfolding h by (rule apiDelete_routes)
  have s: "segment3 (pathname req) = Some (takeWhile (\<lambda>x. x \<noteq> CHR ''/'') t)"
    unfolding p by (rule segment3_api_games)
  have e: "handleApi env req st = (Response 200 Ok, Some (AList.delete i d), [])
            \<and> map_of (AList.delete i d) i = None"
    if "t = i @ CHR ''/'' # rest" "i \<noteq> []" "CHR ''/'' \<notin> set i" "st = Some d"
       "map_of d i = Some (Dir k)" for i rest d k
  proof -
    have "takeWhile (\<lambda>x. x \<noteq> CHR ''/'') t = i"
      using that(1,3) by (simp add: takeWhile_segment)
    with p have "apiDelete req (Some d) =
           (case map_of d i of
              Some (Dir k) \<Rightarrow> (Response 200 Ok, Some (AList.delete i d), [])
            | _ \<Rightarrow> (Response 404 (Text ''not found''), Some d, []))"
      using that(2) by (rule apiDelete_id)
    then show ?thesis
      using h that(4,5) by (simp add: delete_conv')
  qed
  from r s e show ?thesis by blast
qed

theorem delete_matches_prefix_witness:
  "handleApi sampleEnv (sampleRequest ''DELETE'' ''/api/games/space-runner/thumbnail'') (Some sampleLibrary)
     = (Response 200 Ok, Some (AList.delete ''space-runner'' sampleLibrary), [])
   \<and> segment3 ''/api/games/space-runner/thumbnail'' = Some ''space-runner''"
proof -
  let ?req = "sampleRequest ''DELETE'' ''/api/games/space-runner/thumbnail''"
  have m: "reqMethod ?req = ''DELETE''"
    by (simp add: sampleRequest_def)
  have p: "pathname ?req = ''/api/games/'' @ ''space-runner/thumbnail''"
    by (simp add: sampleRequest_def)
  note t = delete_matches_prefix [OF m p, of sampleEnv "Some sampleLibrary"]
  have a: "handleApi sampleEnv ?req (Some sampleLibrary)
             = (Response 200 Ok, Some (AList.delete ''space-runner'' sampleLibrary), [])"
    using t [THEN conjunct2, THEN conjunct2, rule_format, of "''space-runner''" "''thumbnail''"
        sampleLibrary "[(''index.html'', File [60, 33]), (''thumbnail.png'', File [137, 80])]"]
    by (simp add: sampleLibrary_def)
  have b: "segment3 ''/api/games/space-runner/thumbnail'' = Some ''space-runner''"
    using t [THEN conjunct2, THEN conjunct1] by (simp add: sampleRequest_def)
  from a b show ?thesis by simp
qed

lemma scanDir_member:
  "(n, Dir k) \<in> set es \<Longrightarrow> gameEntry d n \<in> set (scanDir d es)"
  by (induction d es rule: scanDir.induct) auto

lemma handleApi_POST_thumbnail:
  assumes "reqMethod req = ''POST''" and "pathname req = ''/api/games/'' @ i @ ''/thumbnail''"
  shows "handleApi env req st = apiThumbnail req st"
proof -
  have "suffix ''/thumbnail'' (pathname req)"
    unfolding assms(2) by (metis append_assoc suffixI)
  moreover have "prefix ''/api/games/'' (pathname req)"
    unfolding assms(2) by simp
  moreover have "pathname req \<noteq> ''/api/games''" "pathname req \<noteq> ''/api/add-game/from-zip''"
    "pathname req \<noteq> ''/api/add-game/from-github''"
    unfolding assms(2) by simp_all
  ultimately show ?thesis
    using assms(1) by (simp add: handleApi_def)
qed

lemma apiThumbnail_write:
  assumes p: "pathname req = ''/api/games/'' @ t"
      and t: "takeWhile (\<lambda>x. x \<noteq> CHR ''/'') t = i" and i: "i \<noteq> []"
      and d: "map_of d i = Some (Dir k)"
      and nd: "\<forall>k'. map_of k ''thumbnail.png'' \<noteq> Some (Dir k')"
  shows "apiThumbnail req (Some d) =
           (Response 200 Ok,
            Some (AList.update i (Dir (AList.update ''thumbnail.png'' (File (arrayBuffer req)) k)) d), [])"
  unfolding apiThumbnail_def p segment3_api_games t
  using i d nd
  by (simp add: joinGames_def statGames_def split: option.splits node.splits)

text \<open>
  C10. \<open>POST /api/games/:id/thumbnail\<close> on an existing game directory, with any body
  bytes at all: where \<open>thumbnail.png\<close> in that directory is absent or a regular file, the
  bytes of the body become the content of \<open>thumbnail.png\<close> (nothing inspects them), the
  rest of the directory and every other game are unchanged, the answer is 200
  \<open>{ ok: true }\<close>, and a \<open>listGames()\<close> that follows reports \<open>hasThumbnail\<close> for that id.
\<close>

theorem thumbnail_upload:
  assumes m: "reqMethod req = ''POST''"
      and p: "pathname req = ''/api/games/'' @ i @ ''/thumbnail''"
      and i: "i \<noteq> []" "CHR ''/'' \<notin> set i"
      and d: "map_of d i = Some (Dir k)"
      and nd: "\<forall>k'. map_of k ''thumbnail.png'' \<noteq> Some (Dir k')"
  shows "\<exists>d' k'. handleApi env req (Some d) = (Response 200 Ok, Some d', [])
           \<and> map_of d' i = Some (Dir k')
           \<and> map_of k' ''thumbnail.png'' = Some (File (arrayBuffer req))
           \<and> (\<forall>n. n \<noteq> ''thumbnail.png'' \<longrightarrow> map_of k' n = map_of k n)
           \<and> (\<forall>j. j \<noteq> i \<longrightarrow> map_of d' j = map_of d j)
           \<and> (\<exists>es. listGames (localeCompare env) (Some d') = Inr es
                  \<and> (\<exists>e \<in> set es. id' e = i \<and> hasThumbnail e))"
proof -
  let ?k' = "AList.update ''thumbnail.png'' (File (arrayBuffer req)) k"
  let ?d' = "AList.update i (Dir ?k') d"
  have tw: "takeWhile (\<lambda>x. x \<noteq> CHR ''/'') (i @ ''/thumbnail'') = i"
    using i(2) takeWhile_segment [of i "''thumbnail''"] by simp
  have p': "pathname req = ''/api/games/'' @ (i @ ''/thumbnail'')"
    using p by simp
  have run: "handleApi env req (Some d) = (Response 200 Ok, Some ?d', [])"
    using handleApi_POST_thumbnail [OF m p] apiThumbnail_write [OF p' tw i(1) d nd] by simp
  have l1: "map_of ?d' i = Some (Dir ?k')"
    by (simp add: update_conv')
  have l2: "map_of ?k' ''thumbnail.png'' = Some (File (arrayBuffer req))"
    by (simp add: update_conv')
  have l3: "\<forall>n. n \<noteq> ''thumbnail.png'' \<longrightarrow> map_of ?k' n = map_of k n"
    by (simp add: update_conv')
  have l4: "\<forall>j. j \<noteq> i \<longrightarrow> map_of ?d' j = map_of d j"
    by (simp add: update_conv')
  have "(i, Dir ?k') \<in> set ?d'"
    using l1 by (rule map_of_SomeD)
  then have mem: "gameEntry ?d' i \<in> set (scanDir ?d' ?d')"
    by (rule scanDir_member)
  have "thumbnailPresent ?d' i"
    using l1 l2 by (simp add: thumbnailPresent_iff)
  then have th: "id' (gameEntry ?d' i) = i \<and> hasThumbnail (gameEntry ?d' i)"
    by (simp add: gameEntry_def)
  have l5: "\<exists>es. listGames (localeCompare env) (Some ?d') = Inr es
                  \<and> (\<exists>e \<in> set es. id' e = i \<and> hasThumbnail e)"
    using mem th by (auto simp: listGames_def set_sortBy)
  from run l1 l2 l3 l4 l5 show ?thesis by blast
qed

theorem thumbnail_upload_witness:
  "\<exists>d'. handleApi sampleEnv (sampleRequest ''POST'' ''/api/games/space-runner/thumbnail'') (Some sampleLibrary)
           = (Response 200 Ok, Some d', [])
        \<and> stat d' [''space-runner'', ''thumbnail.png''] = Some (File [137, 80, 78, 71])"
proof -
  let ?req = "sampleRequest ''POST'' ''/api/games/space-runner/thumbnail''"
  have m: "reqMethod ?req = ''POST''" by (simp add: sampleRequest_def)
  have p: "pathname ?req = ''/api/games/'' @ ''space-runner'' @ ''/thumbnail''"
    by (simp add: sampleRequest_def)
  have i: "''space-runner'' \<noteq> []" "CHR ''/'' \<notin> set ''space-runner''" by simp_all
  have d: "map_of sampleLibrary ''space-runner''
             = Some (Dir [(''index.html'', File [60, 33]), (''thumbnail.png'', File [137, 80])])"
    by (simp add: sampleLibrary_def)
  have nd: "\<forall>k'. map_of [(''index.html'', File [60, 33]), (''thumbnail.png'', File [137, 80])]
               ''thumbnail.png'' \<noteq> Some (Dir k')"
    by simp
  from thumbnail_upload [OF m p i d nd, of sampleEnv]
  obtain d' k' where "handleApi sampleEnv ?req (Some sampleLibrary) = (Response 200 Ok, Some d', [])"
    and "map_of d' ''space-runner'' = Some (Dir k')"
    and "map_of k' ''thumbnail.png'' = Some (File (arrayBuffer ?req))"
    by blast
  then show ?thesis
    by (auto simp: sampleRequest_def)
qed

text \<open>
  C2. ZIP ingestion, once the archive is extracted: a sole top-level entry is the effective
  root, and the hint is applied after it; what \<open>saveZipToDir\<close> reads at the resolved base
  is the source the specification describes (the effective root, or under the hint
  \<open>dist\<close> or \<open>docs\<close> its sub-folder of that name when present), and that source is what is
  copied into the target directory.
\<close>

theorem zip_base_resolution:
  assumes u: "unzip env zipBytes = Some ex"
      and e: "ensureDir st target = Inr (Some d)"
      and k: "targetEntries d target = Some k"
  shows "(\<forall>w n. ex = [(w, n)] \<longrightarrow>
            resolveBase ex sh =
              [w] @ (if toLowerCase (orDefault sh ''root'') = ''dist''
                        \<or> toLowerCase (orDefault sh ''root'') = ''docs''
                     then [toLowerCase (orDefault sh ''root'')] else []))
       \<and> stat ex (resolveBase ex sh) = spec_source ex sh
       \<and> saveZipToDir env zipBytes target sh st =
           (case spec_source ex sh of
              None \<Rightarrow> (Some NotFound, Some d, [RunUnzip zipBytes])
            | Some src \<Rightarrow>
                (case copy env src k of
                   None \<Rightarrow> (Some CopyFailed, Some d, [RunUnzip zipBytes])
                 | Some k' \<Rightarrow>
                     (None, Some (putTargetEntries d target k'), [RunUnzip zipBytes])))"
proof -
  have a: "\<forall>w n. ex = [(w, n)] \<longrightarrow>
            resolveBase ex sh =
              [w] @ (if toLowerCase (orDefault sh ''root'') = ''dist''
                        \<or> toLowerCase (orDefault sh ''root'') = ''docs''
                     then [toLowerCase (orDefault sh ''root'')] else [])"
    by (simp add: resolveBase_def Let_def)
  have b: "stat ex (resolveBase ex sh) = spec_source ex sh"
    by (rule stat_resolveBase)
  have c: "saveZipToDir env zipBytes target sh st =
           (case spec_source ex sh of
              None \<Rightarrow> (Some NotFound, Some d, [RunUnzip zipBytes])
            | Some src \<Rightarrow>
                (case copy env src k of
                   None \<Rightarrow> (Some CopyFailed, Some d, [RunUnzip zipBytes])
                 | Some k' \<Rightarrow>
                     (None, Some (putTargetEntries d target k'), [RunUnzip zipBytes])))"
    using u e k by (simp add: saveZipToDir_def b Let_def split: option.splits)
  from a b c show ?thesis by blast
qed


theorem zip_base_resolution_witness:
  "resolveBase sampleArchive (Some ''Dist'') = [''repo-main'', ''dist'']
   \<and> stat sampleArchive (resolveBase sampleArchive (Some ''Dist''))
       = Some (Dir [(''index.html'', File [60, 104])])
   \<and> saveZipToDir sampleEnv [80, 75] [''space-runner''] (Some ''Dist'') (Some sampleLibrary)
       = (None,
          Some [(''space-runner'', Dir [(''index.html'', File [60, 104]), (''thumbnail.png'', File [137, 80])]),
                (''README.md'', File [35]),
                (''puzzle_box'', Dir [(''index.html'', File []), (''thumbnail.png'', Dir [])])],
          [RunUnzip [80, 75]])"
proof -
  have u: "unzip sampleEnv [80, 75] = Some sampleArchive"
    by (simp add: sampleEnv_def)
  have e: "ensureDir (Some sampleLibrary) [''space-runner''] = Inr (Some sampleLibrary)"
    by (simp add: ensureDir_def sampleLibrary_def)
  have k: "targetEntries sampleLibrary [''space-runner'']
             = Some [(''index.html'', File [60, 33]), (''thumbnail.png'', File [137, 80])]"
    by (simp add: targetEntries_def sampleLibrary_def)
  have low: "toLowerCase (orDefault (Some ''Dist'') ''root'') = ''dist''"
    by (simp add: toLowerCase_def toLowerChar_def orDefault_def)
  have src: "spec_source sampleArchive (Some ''Dist'') = Some (Dir [(''index.html'', File [60, 104])])"
    by (simp add: spec_source_def low spec_effectiveRoot_def sampleArchive_def)
  note t = zip_base_resolution [OF u e k, of "Some ''Dist''"]
  have a: "resolveBase sampleArchive (Some ''Dist'') = [''repo-main'', ''dist'']"
    using t [THEN conjunct1, rule_format, of "''repo-main''"
               "Dir [(''README.md'', File [35]), (''dist'', Dir [(''index.html'', File [60, 104])])]"]
    by (simp add: low sampleArchive_def)
  have b: "stat sampleArchive (resolveBase sampleArchive (Some ''Dist''))
       = Some (Dir [(''index.html'', File [60, 104])])"
    using t [THEN conjunct2, THEN conjunct1] src by simp
  have c: "saveZipToDir sampleEnv [80, 75] [''space-runner''] (Some ''Dist'') (Some sampleLibrary)
       = (None,
          Some [(''space-runner'', Dir [(''index.html'', File [60, 104]), (''thumbnail.png'', File [137, 80])]),
                (''README.md'', File [35]),
                (''puzzle_box'', Dir [(''index.html'', File []), (''thumbnail.png'', Dir [])])],
          [RunUnzip [80, 75]])"
    using t [THEN conjunct2, THEN conjunct2] src
    by (simp add: sampleEnv_def sampleCopy_def putTargetEntries_def sampleLibrary_def)
  from a b c show ?thesis by simp
qed





lemma apiAddGame_trace:
  "prefix tr0 (snd (snd (apiAddGame env zipBytes i sh st tr0)))"
  by (auto simp: apiAddGame_def Let_def split: sum.splits prod.splits option.splits)





section \<open>Properties of the launcher page\<close>

lemma focusIndex_games [simp]: "games (focusIndex i o' pg) = games pg"
  by (simp add: focusIndex_def openGame_def Let_def)

lemma focusIndex_focused:
  "games pg \<noteq> [] \<Longrightarrow>
     focusedIndex (focusIndex i o' pg) = max 0 (min (int (length (games pg)) - 1) i)"
  by (simp add: focusIndex_def openGame_def Let_def)

lemma focusIndex_range: "focusInRange (focusIndex i o' pg)"
proof (cases "games pg = []")
  case True
  then show ?thesis by (simp add: focusInRange_def)
next
  case False
  then have "0 < int (length (games pg))" by simp
  then show ?thesis
    using False by (simp add: focusInRange_def focusIndex_focused)
qed

lemma renderCoverflow_range: "focusInRange (renderCoverflow pg)"
  by (simp add: renderCoverflow_def focusIndex_range)

lemma deleteGame_range: "focusInRange pg \<Longrightarrow> focusInRange (deleteGame g i c r pg)"
  by (simp add: deleteGame_def Let_def renderCoverflow_range)

lemma deleteGame_success_range: "focusInRange (deleteGame g i True True pg)"
  by (simp add: deleteGame_def Let_def renderCoverflow_range)

lemma hideGameMenu_range: "focusInRange (hideGameMenu pg) = focusInRange pg"
  by (simp add: hideGameMenu_def focusInRange_def)

lemma toggleOSD_range: "focusInRange (toggleOSD b pg) = focusInRange pg"
  by (simp add: toggleOSD_def focusInRange_def)

lemma exitGame_range: "focusInRange (exitGame pg) = focusInRange pg"
  by (simp add: exitGame_def focusInRange_def)

lemma step_range: "focusInRange pg \<Longrightarrow> focusInRange (step e pg)"
proof (cases e)
  case (FocusIndex i o')
  then show ?thesis by (simp add: focusIndex_range)
next
  case (FetchGames answer)
  then show ?thesis by (simp add: fetchGames_def renderCoverflow_range)
next
  case (GameAdded answer newId)
  then show ?thesis by (simp add: focusAdded_def Let_def focusIndex_range)
next
  case (DeleteClick c r)
  assume "focusInRange pg"
  then show ?thesis
    using DeleteClick
    by (auto simp: deleteGameClick_def hideGameMenu_range deleteGame_range split: option.splits)
next
  case (DeleteGame g i c r)
  assume "focusInRange pg"
  then show ?thesis using DeleteGame by (simp add: deleteGame_range)
next
  case (KeyDown k)
  assume "focusInRange pg"
  then show ?thesis
    using KeyDown
    by (simp add: globalKeyHandler_def Let_def focusIndex_range toggleOSD_range exitGame_range)
next
  case ExitGame
  assume "focusInRange pg"
  then show ?thesis using ExitGame by (simp add: exitGame_range)
qed

lemma run_range: "focusInRange pg \<Longrightarrow> focusInRange (run evs pg)"
  unfolding run_def
  by (induction evs arbitrary: pg) (simp_all add: step_range)

lemma deleteGame_games: "games (deleteGame g k True True pg) = spliceOne k (games pg)"
  by (simp add: deleteGame_def Let_def renderCoverflow_def)

lemma focusIndex_opens:
  "games pg \<noteq> [] \<Longrightarrow>
     currentGame (focusIndex i True pg) = Some (games pg ! nat (max 0 (min (int (length (games pg)) - 1) i)))"
  by (simp add: focusIndex_def openGame_def Let_def)

lemma initial_range: "focusInRange initialPage"
  by (simp add: focusInRange_def initialPage_def)

text \<open>
  C8. While the games list is non-empty the focused index stays within
  \<open>[0, length - 1]\<close>: \<open>focusIndex(i, open)\<close> stores \<open>i\<close> clamped into that range, whatever the
  index was before, and opens the game at the clamped index; a successful deletion
  removes the entry and leaves the index inside the shortened list; every operation on
  the list or the index keeps the range, so it holds after any sequence of them from the
  initial page.
\<close>

theorem focusedIndex_clamped:
  "(games pg \<noteq> [] \<longrightarrow>
      focusedIndex (focusIndex i o' pg) = max 0 (min (int (length (games pg)) - 1) i)
      \<and> 0 \<le> focusedIndex (focusIndex i o' pg)
      \<and> focusedIndex (focusIndex i o' pg) \<le> int (length (games pg)) - 1
      \<and> (o' \<longrightarrow> currentGame (focusIndex i o' pg) = Some (games pg ! nat (focusedIndex (focusIndex i o' pg)))))
   \<and> games (deleteGame g k True True pg) = spliceOne k (games pg)
   \<and> focusInRange (deleteGame g k True True pg)
   \<and> (focusInRange pg \<longrightarrow> focusInRange (step e pg))
   \<and> focusInRange (run evs initialPage)"
proof -
  have a: "focusedIndex (focusIndex i o' pg) = max 0 (min (int (length (games pg)) - 1) i)
      \<and> 0 \<le> focusedIndex (focusIndex i o' pg)
      \<and> focusedIndex (focusIndex i o' pg) \<le> int (length (games pg)) - 1
      \<and> (o' \<longrightarrow> currentGame (focusIndex i o' pg) = Some (games pg ! nat (focusedIndex (focusIndex i o' pg))))"
    if ne: "games pg \<noteq> []"
  proof -
    have len: "0 < int (length (games pg))" using ne by simp
    have f: "focusedIndex (focusIndex i o' pg) = max 0 (min (int (length (games pg)) - 1) i)"
      using ne by (rule focusIndex_focused)
    have "o' \<longrightarrow> currentGame (focusIndex i o' pg) = Some (games pg ! nat (focusedIndex (focusIndex i o' pg)))"
      using ne focusIndex_opens [OF ne, of i] f by auto
    with f len show ?thesis by simp
  qed
  have b: "games (deleteGame g k True True pg) = spliceOne k (games pg)"
    by (rule deleteGame_games)
  have c: "focusInRange (deleteGame g k True True pg)"
    by (rule deleteGame_success_range)
  have d: "focusInRange pg \<longrightarrow> focusInRange (step e pg)"
    by (simp add: step_range)
  have e: "focusInRange (run evs initialPage)"
    using initial_range by (rule run_range)
  from a b c d e show ?thesis by blast
qed

theorem focusedIndex_clamped_witness:
  "games threeGames \<noteq> []
   \<and> focusedIndex (focusIndex 7 False threeGames) = 2
   \<and> focusedIndex (focusIndex (- 3) False threeGames) = 0
   \<and> map id' (games (deleteGame ''c'' 2 True True (focusIndex 7 False threeGames))) = [''a'', ''b'']
   \<and> focusedIndex (deleteGame ''c'' 2 True True (focusIndex 7 False threeGames)) = 1
   \<and> focusInRange (step (FocusIndex 7 False) threeGames)"
proof -
  have g: "games threeGames = [gameEntry [] ''a'', gameEntry [] ''b'', gameEntry [] ''c'']"
    by (simp add: threeGames_def fetchGames_def renderCoverflow_def)
  have ne: "games threeGames \<noteq> []" by (simp add: g)
  have r: "focusInRange threeGames"
    by (simp add: threeGames_def fetchGames_def renderCoverflow_range)
  have a: "focusedIndex (focusIndex 7 False threeGames) = 2"
    using focusedIndex_clamped [of threeGames 7 False] ne by (simp add: g)
  have b: "focusedIndex (focusIndex (- 3) False threeGames) = 0"
    using focusedIndex_clamped [of threeGames "- 3" False] ne by (simp add: g)
  let ?pg = "focusIndex 7 False threeGames"
  have c: "map id' (games (deleteGame ''c'' 2 True True ?pg)) = [''a'', ''b'']"
    using focusedIndex_clamped [of ?pg 0 False "''c''" 2]
    by (simp add: g spliceOne_def gameEntry_def)
  have d: "focusedIndex (deleteGame ''c'' 2 True True ?pg) = 1"
    using a by (simp add: deleteGame_def Let_def g spliceOne_def renderCoverflow_def focusIndex_def)
  have e: "focusInRange (step (FocusIndex 7 False) threeGames)"
    using focusedIndex_clamped [of threeGames 0 False "''a''" 0 "FocusIndex 7 False"] r by simp
  from ne a b c d e show ?thesis by simp
qed

section \<open>Properties of the gamepad subsystem\<close>

lemma currentSchema_no_migration: "currentSchema m \<Longrightarrow> \<not> needsMigration (face m)"
  by (auto simp: currentSchema_def hasNames_def needsMigration_def defaultMapping_def)

lemma default_no_migration: "\<not> needsMigration (face defaultMapping)"
  by (simp add: needsMigration_def defaultMapping_def)

lemma migrateFace_names:
  "map fst (migrateFace f) = [''btnTop'', ''btnRight'', ''btnBottom'', ''btnLeft'']"
  by (simp add: migrateFace_def orDefaultEntry_def defaultMapping_def split: option.splits)

lemma migrateFace_lookup:
  "map_of (migrateFace f) ''btnTop'' = orDefaultEntry f ''north'' ''btnTop''"
  "map_of (migrateFace f) ''btnRight'' = orDefaultEntry f ''east'' ''btnRight''"
  "map_of (migrateFace f) ''btnBottom'' = orDefaultEntry f ''south'' ''btnBottom''"
  "map_of (migrateFace f) ''btnLeft'' = orDefaultEntry f ''west'' ''btnLeft''"
  by (simp_all add: migrateFace_def orDefaultEntry_def defaultMapping_def split: option.splits)

lemma expect_append: "expect l (l @ r) = Some r"
  by (induction l) simp_all

lemma digit_index: "k < 10 \<Longrightarrow> digitVal (''0123456789'' ! k) = Some k"
proof -
  have "\<forall>k \<in> set [0..<10]. digitVal (''0123456789'' ! k) = Some k"
    by code_simp
  then show "k < 10 \<Longrightarrow> digitVal (''0123456789'' ! k) = Some k" by simp
qed

lemma hex_index: "k < 16 \<Longrightarrow> hexVal (hexDigit k) = Some k"
proof -
  have "\<forall>k \<in> set [0..<16]. hexVal (hexDigit k) = Some k"
    by code_simp
  then show "k < 16 \<Longrightarrow> hexVal (hexDigit k) = Some k" by simp
qed

lemma showNat_digits: "c \<in> set (showNat n) \<Longrightarrow> isDigit c"
proof (induction n arbitrary: c rule: showNat.induct)
  case (1 n)
  show ?case
  proof (cases "n < 10")
    case True
    with 1(2) show ?thesis by (simp add: showNat.simps [of n] isDigit_def digit_index)
  next
    case False
    with 1(2) have "c \<in> set (showNat (n div 10)) \<or> c = ''0123456789'' ! (n mod 10)"
      by (auto simp add: showNat.simps [of n])
    then show ?thesis
    proof
      assume "c \<in> set (showNat (n div 10))"
      with 1(1) False show ?thesis by simp
    next
      assume "c = ''0123456789'' ! (n mod 10)"
      then show ?thesis by (simp add: isDigit_def digit_index)
    qed
  qed
qed

lemma showNat_nonempty: "showNat n \<noteq> []"
  by (simp add: showNat.simps [of n])

lemma readNat_snoc: "readNat (ds @ [d]) = readNat ds * 10 + the (digitVal d)"
  by (simp add: readNat_def)

lemma readNat_showNat: "readNat (showNat n) = n"
proof (induction n rule: showNat.induct)
  case (1 n)
  show ?case
  proof (cases "n < 10")
    case True
    then show ?thesis by (simp add: showNat.simps [of n] readNat_def digit_index)
  next
    case False
    have "readNat (showNat n) = readNat (showNat (n div 10)) * 10 + the (digitVal (''0123456789'' ! (n mod 10)))"
      using False by (simp add: showNat.simps [of n] readNat_snoc)
    also have "\<dots> = (n div 10) * 10 + n mod 10"
      using 1 False by (simp add: digit_index)
    finally show ?thesis by simp
  qed
qed

lemma takeWhile_digits:
  assumes "\<forall>c \<in> set ds. isDigit c" "\<not> isDigit x"
  shows "takeWhile isDigit (ds @ x # rest) = ds" "dropWhile isDigit (ds @ x # rest) = x # rest"
  using assms by (induction ds) simp_all

lemma parseNum_stringifyNum:
  assumes "\<not> isDigit x" "x \<noteq> CHR ''l''"
  shows "parseNum (stringifyNum v @ x # rest) = Some (jsonNum v, x # rest)"
proof (cases v)
  case (Number i)
  have nd: "\<forall>c \<in> set (showNat k). isDigit c" for k
    using showNat_digits by blast
  have hd_digit: "expect ''null'' (showNat k @ r) = None" "expect ''-'' (showNat k @ r) = None" for k r
  proof -
    obtain d ds where s: "showNat k = d # ds" using showNat_nonempty [of k] by (cases "showNat k") auto
    then have "isDigit d" using showNat_digits [of d k] by simp
    then have "d \<noteq> CHR ''n''" "d \<noteq> CHR ''-''" by (auto simp: isDigit_def digitVal_def)
    then show "expect ''null'' (showNat k @ r) = None" "expect ''-'' (showNat k @ r) = None"
      using s by simp_all
  qed
  show ?thesis
  proof (cases "i < 0")
    case True
    then show ?thesis
      using Number assms(1) nd [of "nat (- i)"] showNat_nonempty [of "nat (- i)"]
      by (simp add: parseNum_def showInt_def takeWhile_digits readNat_showNat)
  next
    case False
    then show ?thesis
      using Number assms(1) nd [of "nat i"] showNat_nonempty [of "nat i"]
      by (simp add: parseNum_def showInt_def hd_digit takeWhile_digits readNat_showNat)
  qed
next
  case NaN
  then show ?thesis by (simp add: parseNum_def)
next
  case Null
  then show ?thesis by (simp add: parseNum_def)
qed

lemma parseChars_escape:
  "parseChars (escape s @ CHR 0x22 # rest) = Some (s, rest)"
proof (induction s)
  case Nil
  show ?case by (simp add: escape_def)
next
  case (Cons c s)
  have ih: "parseChars (concat (map escapeChar s) @ CHR 0x22 # rest) = Some (s, rest)"
    using Cons by (simp add: escape_def)
  have low: "hexVal (hexDigit ((of_char c :: nat) div 16)) = Some ((of_char c :: nat) div 16)"
    "hexVal (hexDigit ((of_char c :: nat) mod 16)) = Some ((of_char c :: nat) mod 16)"
    if "(of_char c :: nat) < 32"
    using that by (simp_all add: hex_index)
  have z: "hexVal CHR ''0'' = Some 0" by code_simp
  show ?case
    by (simp add: escape_def escapeChar_def ih consChar_def unescape_def low z)
qed

lemma not_digit: "\<not> isDigit CHR '',''" "\<not> isDigit CHR ''}''"
  by code_simp+

lemma parseString_quoted: "parseString (quoted s @ rest) = Some (s, rest)"
  by (simp add: parseString_def quoted_def parseChars_escape)

lemma parseEntry_stringifyEntry:
  "parseEntry (stringifyEntry e @ rest) = Some (jsonEntry e, rest)"
  by (simp add: parseEntry_def stringifyEntry_def expect_append parseNum_stringifyNum
      parseString_quoted not_digit jsonEntry_def)

lemma stringifyMember_pair: "stringifyMember (k, e) = quoted k @ CHR '':'' # stringifyEntry e"
  by (simp add: stringifyMember_def)

lemma parseMembers_stringify:
  "g \<noteq> [] \<Longrightarrow> length g \<le> n \<Longrightarrow>
   parseMembers n (commaSep (map stringifyMember g) @ CHR ''}'' # rest) = Some (jsonGroup g, rest)"
proof (induction g arbitrary: n)
  case Nil
  then show ?case by simp
next
  case (Cons x g)
  obtain k e where x: "x = (k, e)" by (cases x)
  obtain n' where n: "n = Suc n'" using Cons.prems(2) by (cases n) auto
  show ?case
  proof (cases g)
    case Nil
    then show ?thesis
      by (simp add: x n stringifyMember_pair parseString_quoted parseEntry_stringifyEntry jsonGroup_def)
  next
    case (Cons y ys)
    have ih: "parseMembers n' (commaSep (map stringifyMember g) @ CHR ''}'' # rest) = Some (jsonGroup g, rest)"
      using Cons.IH [of n'] Cons Cons.prems(2) n by simp
    have c: "commaSep (map stringifyMember (x # g)) = stringifyMember x @ CHR '','' # commaSep (map stringifyMember g)"
      using Cons by simp
    show ?thesis
      unfolding c
      by (simp add: x n stringifyMember_pair parseString_quoted parseEntry_stringifyEntry ih jsonGroup_def)
  qed
qed

lemma length_commaSep: "length xs \<le> length (commaSep (map stringifyMember xs))"
proof (induction xs rule: induct_list012)
  case 1
  show ?case by simp
next
  case (2 x)
  obtain k e where "x = (k, e)" by (cases x)
  then show ?case by (simp add: stringifyMember_pair quoted_def)
next
  case (3 x y zs)
  obtain k e where "x = (k, e)" by (cases x)
  with 3 show ?case by (simp add: stringifyMember_pair quoted_def)
qed

lemma parseGroup_stringifyGroup:
  "parseGroup (stringifyGroup g @ rest) = Some (jsonGroup g, rest)"
proof (cases g)
  case Nil
  then show ?thesis by (simp add: parseGroup_def stringifyGroup_def jsonGroup_def)
next
  case (Cons x xs)
  obtain k e where x: "x = (k, e)" by (cases x)
  let ?t = "commaSep (map stringifyMember g) @ CHR ''}'' # rest"
  have hd: "expect ''}'' ?t = None"
  proof (cases xs)
    case Nil
    then show ?thesis using Cons x by (simp add: stringifyMember_pair quoted_def)
  next
    case (Cons y ys)
    then show ?thesis using \<open>g = x # xs\<close> x by (simp add: stringifyMember_pair quoted_def)
  qed
  have len: "length g \<le> length ?t"
    using length_commaSep [of g] by simp
  have "parseGroup (stringifyGroup g @ rest) = parseMembers (length ?t) ?t"
    using hd by (simp add: parseGroup_def stringifyGroup_def)
  also have "\<dots> = Some (jsonGroup g, rest)"
    using parseMembers_stringify [OF _ len] Cons by simp
  finally show ?thesis .
qed

lemma parse_stringify: "parse (stringify m) = Some (jsonMapping m)"
proof -
  have "parse (stringify m @ []) = Some (jsonMapping m)"
    unfolding parse_def stringify_def
    by (simp add: expect_append parseGroup_stringifyGroup jsonMapping_def)
  then show ?thesis by simp
qed

lemma stringify_nonempty: "stringify m \<noteq> []"
  by (simp add: stringify_def)

text \<open>An entry as it is written, with \<open>NaN\<close> as \<open>null\<close> and the quote character of the key
  escaped.\<close>

lemma stringifyEntry_example:
  "stringifyEntry \<lparr> gamepadButton = NaN, keyboardKey = [CHR 0x22], keyCode = Number (- 7) \<rparr>
     = ''{'' @ [CHR 0x22] @ ''gamepadButton'' @ [CHR 0x22] @ '':null,''
         @ [CHR 0x22] @ ''keyboardKey'' @ [CHR 0x22] @ '':'' @ [CHR 0x22, CHR 0x5C, CHR 0x22, CHR 0x22]
         @ '','' @ [CHR 0x22] @ ''keyCode'' @ [CHR 0x22] @ '':-7}''"
  by code_simp

lemma jsonGroup_names: "map fst (jsonGroup g) = map fst g"
  by (induction g) (auto simp: jsonGroup_def)

lemma jsonNum_id: "x \<noteq> NaN \<Longrightarrow> jsonNum x = x"
  by (cases x) simp_all

lemma jsonGroup_id:
  "\<forall>(n, e) \<in> set g. gamepadButton e \<noteq> NaN \<and> keyCode e \<noteq> NaN \<Longrightarrow> jsonGroup g = g"
  by (induction g) (auto simp: jsonGroup_def jsonEntry_def jsonNum_id)

lemma jsonMapping_id: "noNaN m \<Longrightarrow> jsonMapping m = m"
proof -
  assume n: "noNaN m"
  have "\<forall>(k, e) \<in> set (dpad m @ face m @ shoulder m @ special m).
          gamepadButton e \<noteq> NaN \<and> keyCode e \<noteq> NaN"
    using n unfolding noNaN_def numbersOf_def by fastforce
  then have "jsonGroup (dpad m) = dpad m" "jsonGroup (face m) = face m"
    "jsonGroup (shoulder m) = shoulder m" "jsonGroup (special m) = special m"
    by (auto intro!: jsonGroup_id)
  then show ?thesis by (simp add: jsonMapping_def)
qed

lemma needsMigration_json: "needsMigration (face (jsonMapping m)) = needsMigration (face m)"
  by (simp add: needsMigration_def jsonMapping_def jsonGroup_names)

lemma load_save: "loadMapping (saveMapping m ls) = Some (migrate (jsonMapping m))"
  by (simp add: loadMapping_def saveMapping_def parse_stringify stringify_nonempty)

lemma load_absent:
  "ls ''gamepadMapping'' = None \<Longrightarrow> loadMapping ls = Some (migrate (jsonMapping defaultMapping))"
  by (simp add: loadMapping_def parse_stringify)

lemma noNaN_default: "noNaN defaultMapping"
  by (simp add: noNaN_def numbersOf_def defaultMapping_def bm_def)

lemma noNaN_legacy: "noNaN legacyMapping"
  by (simp add: noNaN_def numbersOf_def legacyMapping_def defaultMapping_def bm_def)

lemma noNaN_custom: "noNaN customMapping"
  by (simp add: noNaN_def numbersOf_def customMapping_def defaultMapping_def bm_def)

text \<open>
  C5. Persistence of the button mapping. A mapping in the current schema that is saved
  and loaded again comes back with every \<open>NaN\<close> replaced by \<open>null\<close> and otherwise as it was;
  so it is the same mapping when none of its numbers is \<open>NaN\<close>, whatever the storage held
  before. A stored mapping whose face group uses any of the old names is migrated on
  load: the face group becomes \<open>btnTop\<close>, \<open>btnRight\<close>, \<open>btnBottom\<close>, \<open>btnLeft\<close>, each holding
  the entry stored under \<open>north\<close>, \<open>east\<close>, \<open>south\<close>, \<open>west\<close> and the default only where that
  entry is absent; the other groups are untouched. With nothing stored the defaults are
  loaded.
\<close>

theorem mapping_roundtrip_and_migration:
  "(currentSchema m \<and> noNaN m \<longrightarrow> loadMapping (saveMapping m ls) = Some m)
   \<and> (currentSchema m \<longrightarrow> loadMapping (saveMapping m ls) = Some (jsonMapping m))
   \<and> (ls ''gamepadMapping'' = Some s \<and> s \<noteq> [] \<and> parse s = Some m \<and> needsMigration (face m) \<longrightarrow>
        (\<exists>l. loadMapping ls = Some l
           \<and> dpad l = dpad m \<and> shoulder l = shoulder m \<and> special l = special m
           \<and> map fst (face l) = [''btnTop'', ''btnRight'', ''btnBottom'', ''btnLeft'']
           \<and> (\<forall>(new, old) \<in> set [(''btnTop'', ''north''), (''btnRight'', ''east''),
                                    (''btnBottom'', ''south''), (''btnLeft'', ''west'')].
                 map_of (face l) new =
                   (case map_of (face m) old of
                      Some e \<Rightarrow> Some e
                    | None \<Rightarrow> map_of (face defaultMapping) new))))
   \<and> (ls ''gamepadMapping'' = None \<longrightarrow> loadMapping ls = Some defaultMapping)"
proof -
  have a0: "loadMapping (saveMapping m ls) = Some (jsonMapping m)" if "currentSchema m"
    using currentSchema_no_migration [OF that]
    by (simp add: load_save migrate_def needsMigration_json)
  have a: "loadMapping (saveMapping m ls) = Some m" if "currentSchema m" "noNaN m"
    using a0 [OF that(1)] jsonMapping_id [OF that(2)] by simp
  have b: "\<exists>l. loadMapping ls = Some l
           \<and> dpad l = dpad m \<and> shoulder l = shoulder m \<and> special l = special m
           \<and> map fst (face l) = [''btnTop'', ''btnRight'', ''btnBottom'', ''btnLeft'']
           \<and> (\<forall>(new, old) \<in> set [(''btnTop'', ''north''), (''btnRight'', ''east''),
                                    (''btnBottom'', ''south''), (''btnLeft'', ''west'')].
                 map_of (face l) new =
                   (case map_of (face m) old of
                      Some e \<Rightarrow> Some e
                    | None \<Rightarrow> map_of (face defaultMapping) new))"
    if st: "ls ''gamepadMapping'' = Some s" "s \<noteq> []" "parse s = Some m"
      and mg: "needsMigration (face m)"
  proof -
    have l: "loadMapping ls = Some (m \<lparr> face := migrateFace (face m) \<rparr>)"
      using st mg by (simp add: loadMapping_def migrate_def)
    show ?thesis
      unfolding l
      by (simp add: migrateFace_names migrateFace_lookup orDefaultEntry_def)
  qed
  have c: "loadMapping ls = Some defaultMapping" if "ls ''gamepadMapping'' = None"
    using load_absent [of ls, OF that] default_no_migration jsonMapping_id [OF noNaN_default]
    by (simp add: migrate_def)
  from a a0 b c show ?thesis by blast
qed

lemma currentSchema_custom: "currentSchema customMapping"
  by (simp add: currentSchema_def hasNames_def customMapping_def defaultMapping_def)

lemma legacy_stored:
  "legacyStorage ''gamepadMapping'' = Some (stringify legacyMapping)"
  by (simp add: legacyStorage_def saveMapping_def)

lemma load_legacy: "loadMapping legacyStorage = Some (migrate legacyMapping)"
  unfolding legacyStorage_def load_save jsonMapping_id [OF noNaN_legacy] ..

theorem mapping_roundtrip_and_migration_witness:
  "currentSchema customMapping \<and> noNaN customMapping
   \<and> loadMapping (saveMapping customMapping legacyStorage) = Some customMapping
   \<and> loadMapping legacyStorage \<noteq> Some customMapping
   \<and> loadMapping emptyStorage \<noteq> Some customMapping
   \<and> needsMigration (face legacyMapping)
   \<and> (\<exists>l. loadMapping legacyStorage = Some l
        \<and> map_of (face l) ''btnTop'' = Some (bm 3 ''s'' 83)
        \<and> map_of (face l) ''btnRight'' = Some (bm 1 ''x'' 88)
        \<and> map_of (face l) ''btnBottom'' = Some (bm 0 ''z'' 90)
        \<and> map_of (face l) ''btnLeft'' = Some (bm 2 ''c'' 67)
        \<and> dpad l = dpad defaultMapping)
   \<and> loadMapping emptyStorage = Some defaultMapping"
proof -
  note s = currentSchema_custom and n = noNaN_custom
  have a: "loadMapping (saveMapping customMapping legacyStorage) = Some customMapping"
    using mapping_roundtrip_and_migration [of customMapping legacyStorage] s n by simp
  have ps: "parse (stringify legacyMapping) = Some legacyMapping"
    by (simp add: parse_stringify jsonMapping_id [OF noNaN_legacy])
  have mg: "needsMigration (face legacyMapping)"
    by (simp add: needsMigration_def legacyMapping_def)
  from mapping_roundtrip_and_migration [of legacyMapping legacyStorage "stringify legacyMapping",
      THEN conjunct2, THEN conjunct2, THEN conjunct1] legacy_stored ps mg stringify_nonempty [of legacyMapping]
  obtain l where l: "loadMapping legacyStorage = Some l" "dpad l = dpad legacyMapping"
      "\<forall>(new, old) \<in> set [(''btnTop'', ''north''), (''btnRight'', ''east''),
                                    (''btnBottom'', ''south''), (''btnLeft'', ''west'')].
                 map_of (face l) new =
                   (case map_of (face legacyMapping) old of
                      Some e \<Rightarrow> Some e
                    | None \<Rightarrow> map_of (face defaultMapping) new)"
    by blast
  from l(3) have f: "map_of (face l) ''btnTop'' = Some (bm 3 ''s'' 83)"
    "map_of (face l) ''btnRight'' = Some (bm 1 ''x'' 88)"
    "map_of (face l) ''btnBottom'' = Some (bm 0 ''z'' 90)"
    "map_of (face l) ''btnLeft'' = Some (bm 2 ''c'' 67)"
    by (simp_all add: legacyMapping_def defaultMapping_def)
  have d: "dpad l = dpad defaultMapping"
    using l(2) by (simp add: legacyMapping_def)
  have e: "loadMapping emptyStorage = Some defaultMapping"
    using mapping_roundtrip_and_migration [of _ emptyStorage, THEN conjunct2, THEN conjunct2, THEN conjunct2]
    by (simp add: emptyStorage_def)
  have ne1: "loadMapping legacyStorage \<noteq> Some customMapping"
    using l(1) f(3) by (auto simp: customMapping_def bm_def)
  have ne2: "loadMapping emptyStorage \<noteq> Some customMapping"
    unfolding e by (simp add: customMapping_def defaultMapping_def bm_def)
  from s n a ne1 ne2 mg l(1) f d e show ?thesis by blast
qed

text \<open>
  The mapping the configurator leaves when it saves an entry whose button selector shows
  no option has the current button names, and does not come back from storage as it was
  saved: the \<open>NaN\<close> of the bottom face button is \<open>null\<close> after loading.
\<close>

theorem nan_mapping_not_restored:
  "currentSchema nanMapping
   \<and> loadMapping (saveMapping nanMapping emptyStorage) \<noteq> Some nanMapping
   \<and> map_option (\<lambda>l. map_of (face l) ''btnBottom'') (loadMapping (saveMapping nanMapping emptyStorage))
       = Some (Some \<lparr> gamepadButton = Null, keyboardKey = '' '', keyCode = Number 32 \<rparr>)"
proof -
  have s: "currentSchema nanMapping"
    by (simp add: currentSchema_def hasNames_def nanMapping_def defaultMapping_def)
  have l: "loadMapping (saveMapping nanMapping emptyStorage) = Some (jsonMapping nanMapping)"
    using currentSchema_no_migration [OF s]
    by (simp add: load_save migrate_def needsMigration_json)
  have f: "map_of (face (jsonMapping nanMapping)) ''btnBottom''
             = Some \<lparr> gamepadButton = Null, keyboardKey = '' '', keyCode = Number 32 \<rparr>"
    by (simp add: jsonMapping_def jsonGroup_def jsonEntry_def nanMapping_def)
  have ne: "jsonMapping nanMapping \<noteq> nanMapping"
  proof
    assume "jsonMapping nanMapping = nanMapping"
    then have "map_of (face (jsonMapping nanMapping)) ''btnBottom'' = map_of (face nanMapping) ''btnBottom''"
      by simp
    then show False unfolding f by (simp add: nanMapping_def)
  qed
  from s l f ne show ?thesis by simp
qed

lemma quiet_refl: "quiet pg pg"
  by (simp add: quiet_def)

lemma quiet_trans: "quiet a b \<Longrightarrow> quiet b c \<Longrightarrow> quiet a c"
  unfolding quiet_def by auto

lemma quiet_testing: "quiet pg pg' \<Longrightarrow> isTestingActive pg' = isTestingActive pg"
  by (simp add: quiet_def isTestingActive_def isConfiguratorOpen_def)

lemma quiet_overlayEdges: "quiet pg (overlayEdges pg)"
  by (simp add: quiet_def overlayEdges_def Let_def emit_def)

lemma swallow_processButton:
  "isTestingActive pg \<Longrightarrow>
     processButton g ci n mp isP prev (bs, pg) = (False, bs(n \<mapsto> Flag isP), pg)"
  by (simp add: processButton_def shouldSwallowFor_def Let_def)

lemma swallow_processButtons:
  "isTestingActive pg \<Longrightarrow> snd (processButtons g grp c ci prev (bs, pg)) = pg"
proof (induction grp arbitrary: bs)
  case Nil
  then show ?case by simp
next
  case (Cons a grp)
  obtain n mp where a: "a = (n, mp)" by (cases a)
  show ?case
    using Cons by (simp add: a swallow_processButton split: option.splits)
qed

lemma swallow_processButtonGroup:
  "isTestingActive (snd sp) \<Longrightarrow> snd (processButtonGroup m g c ci prev sp) = snd sp"
  by (cases sp) (simp add: processButtonGroup_def swallow_processButtons)

lemma swallow_processAnalogToDigital:
  "isTestingActive (snd sp) \<Longrightarrow> snd (processAnalogToDigital stick ci n sp) = snd sp"
  by (cases sp) (simp add: processAnalogToDigital_def shouldSwallowFor_def Let_def)

lemma swallow_processAnalogSticks:
  "isTestingActive (snd sp) \<Longrightarrow> snd (processAnalogSticks c ci sp) = snd sp"
  by (simp add: processAnalogSticks_def Let_def swallow_processAnalogToDigital)

lemma swallow_processLauncherControls:
  "isTestingActive (snd sp) \<Longrightarrow> processLauncherControls m c ci prev sp = Some sp"
  by (simp add: processLauncherControls_def shouldSwallowFor_def)

lemma swallow_processOSDControls:
  "isTestingActive (snd sp) \<Longrightarrow> processOSDControls ui m c ci prev sp = Some sp"
  by (simp add: processOSDControls_def shouldSwallowFor_def)

lemma swallow_processGameMenuControls:
  "isTestingActive (snd sp) \<Longrightarrow> processGameMenuControls ui m c ci prev sp = Some sp"
  by (simp add: processGameMenuControls_def shouldSwallowFor_def)

lemma swallow_processController:
  assumes "isTestingActive pg"
  shows "\<exists>bs'. processController ui m (ci, c, bs) pg = Some (bs', overlayEdges pg)"
proof -
  let ?pg = "overlayEdges pg"
  have t: "isTestingActive ?pg"
    using assms quiet_testing [OF quiet_overlayEdges] by simp
  let ?sp1 = "processButtonGroup m ''dpad'' c ci bs (bs, ?pg)"
  let ?sp2 = "processButtonGroup m ''face'' c ci bs ?sp1"
  let ?sp3 = "processButtonGroup m ''shoulder'' c ci bs ?sp2"
  let ?sp4 = "processButtonGroup m ''special'' c ci bs ?sp3"
  let ?sp5 = "processAnalogSticks c ci ?sp4"
  have s1: "snd ?sp1 = ?pg" using t by (simp add: swallow_processButtonGroup)
  have s2: "snd ?sp2 = ?pg" using t s1 by (simp add: swallow_processButtonGroup)
  have s3: "snd ?sp3 = ?pg" using t s2 by (simp add: swallow_processButtonGroup)
  have s4: "snd ?sp4 = ?pg" using t s3 by (simp add: swallow_processButtonGroup)
  have s5: "snd ?sp5 = ?pg" using t s4 by (simp add: swallow_processAnalogSticks)
  have t5: "isTestingActive (snd ?sp5)" using t s5 by simp
  have "processController ui m (ci, c, bs) pg = Some ?sp5"
    using t5
    by (simp add: processController_def Let_def swallow_processLauncherControls
        swallow_processOSDControls swallow_processGameMenuControls)
  then have "processController ui m (ci, c, bs) pg = Some (fst ?sp5, ?pg)"
    using s5 by (metis prod.collapse)
  then show ?thesis by blast
qed

lemma swallow_processInputs:
  "isTestingActive pg \<Longrightarrow>
     \<exists>pads' pg'. processInputs ui m pads pg = Some (pads', pg')
        \<and> map fst pads' = map fst pads \<and> map (\<lambda>p. fst (snd p)) pads' = map (\<lambda>p. fst (snd p)) pads
        \<and> quiet pg pg'"
proof (induction pads arbitrary: pg)
  case Nil
  then show ?case by (simp add: quiet_refl)
next
  case (Cons p pads)
  obtain ci c bs where p: "p = (ci, c, bs)" by (cases p)
  obtain bs' where pc: "processController ui m (ci, c, bs) pg = Some (bs', overlayEdges pg)"
    using swallow_processController [OF Cons.prems] by blast
  have q: "quiet pg (overlayEdges pg)" by (rule quiet_overlayEdges)
  then have "isTestingActive (overlayEdges pg)"
    using Cons.prems quiet_testing by blast
  then obtain pads' pg' where r: "processInputs ui m pads (overlayEdges pg) = Some (pads', pg')"
    "map fst pads' = map fst pads" "map (\<lambda>p. fst (snd p)) pads' = map (\<lambda>p. fst (snd p)) pads"
    "quiet (overlayEdges pg) pg'"
    using Cons.IH by blast
  have "processInputs ui m (p # pads) pg = Some ((ci, c, bs') # pads', pg')"
    by (simp add: p pc r(1))
  moreover have "quiet pg pg'" using q r(4) by (rule quiet_trans)
  ultimately show ?case
    using r(2,3) p by simp
qed

text \<open>
  C7. While live testing is active (the toggle is on and the configurator is open), a
  frame of \<open>processInputs\<close> never fails and routes nothing, for every mapping, every
  number of connected controllers and every state of their buttons and sticks: no key
  event is dispatched towards the game frame, and no launcher navigation or launch, no
  overlay navigation or activation, no opening or closing of the OSD, the game menu or
  the configurator happens. The frame only rewrites the per-controller button states
  (and may run the focus initialisation that follows an overlay having been opened,
  which no controller input causes). The index of the controller is not consulted.
\<close>

theorem testing_swallows_inputs:
  assumes "isTestingActive pg"
  shows "\<exists>pads' pg'. processInputs ui m pads pg = Some (pads', pg')
           \<and> map fst pads' = map fst pads
           \<and> map (\<lambda>p. fst (snd p)) pads' = map (\<lambda>p. fst (snd p)) pads
           \<and> quiet pg pg'"
  using assms by (rule swallow_processInputs)

theorem testing_swallows_inputs_witness:
  "isTestingActive testingPage
   \<and> (\<exists>pads' pg'.
         processInputs sampleDom defaultMapping
           [(0, standardPad [0, 14], addGamepadState), (1, standardPad [9, 10], addGamepadState)]
           testingPage = Some (pads', pg')
         \<and> map fst pads' = [0, 1]
         \<and> (\<forall>a \<in> set (trace pg'). \<not> routed a)
         \<and> \<not> playing pg' \<and> \<not> osdOpen pg' \<and> \<not> gameMenuOpen pg' \<and> focusedIndex pg' = 0)"
proof -
  have t: "isTestingActive testingPage"
    by (simp add: isTestingActive_def isConfiguratorOpen_def testingPage_def initialPage_def)
  from testing_swallows_inputs [OF t, of sampleDom defaultMapping
      "[(0, standardPad [0, 14], addGamepadState), (1, standardPad [9, 10], addGamepadState)]"]
  obtain pads' pg' where r:
    "processInputs sampleDom defaultMapping
           [(0, standardPad [0, 14], addGamepadState), (1, standardPad [9, 10], addGamepadState)]
           testingPage = Some (pads', pg')"
    "map fst pads' = map fst [(0::nat, standardPad [0, 14], addGamepadState), (1, standardPad [9, 10], addGamepadState)]"
    "quiet testingPage pg'"
    by blast
  from r(3) have "(\<forall>a \<in> set (trace pg'). \<not> routed a)
         \<and> \<not> playing pg' \<and> \<not> osdOpen pg' \<and> \<not> gameMenuOpen pg' \<and> focusedIndex pg' = 0"
    by (auto simp: quiet_def testingPage_def initialPage_def)
  with t r(1,2) show ?thesis by auto
qed


text \<open>
  C6. Edge detection on the special-group buttons \<open>leftStick\<close> and \<open>rightStick\<close>, on a
  standard controller (four axes) with the default mapping, while a game is played and
  no overlay is open. Button 10 (\<open>leftStick\<close>, key \<open>f\<close>) is up, down, down, up over four
  frames and button 11 (\<open>rightStick\<close>, key \<open>g\<close>) is never touched. One \<open>keydown\<close> and then one
  \<open>keyup\<close> of \<open>f\<close> are due. What is dispatched: no \<open>keydown\<close> at all, a \<open>keyup\<close> of \<open>f\<close> in
  each frame in which button 10 is up, and a \<open>keyup\<close> of \<open>g\<close> in every frame. The snapshot
  property \<open>leftStick\<close> (\<open>rightStick\<close>) is also where \<open>processAnalogToDigital\<close> stores the
  object of the analog stick, and an object is truthy. For comparison, the face button
  0 (key space) held over the same frames gets exactly one \<open>keydown\<close> and one \<open>keyup\<close>.
\<close>

theorem stick_buttons_release_every_frame:
  "map_option (\<lambda>sp. trace (snd sp))
     (frames sampleDom defaultMapping 0
        [standardPad [], standardPad [10], standardPad [10], standardPad []]
        (addGamepadState, playingPage))
   = Some [DispatchKey ''keyup'' (bm 10 ''f'' 70), DispatchKey ''keyup'' (bm 11 ''g'' 71),
           DispatchKey ''keyup'' (bm 11 ''g'' 71), DispatchKey ''keyup'' (bm 11 ''g'' 71),
           DispatchKey ''keyup'' (bm 10 ''f'' 70), DispatchKey ''keyup'' (bm 11 ''g'' 71)]
   \<and> map_option (\<lambda>sp. filter (\<lambda>a. a = DispatchKey ''keydown'' (bm 0 '' '' 32)
                                   \<or> a = DispatchKey ''keyup'' (bm 0 '' '' 32)) (trace (snd sp)))
     (frames sampleDom defaultMapping 0
        [standardPad [], standardPad [0], standardPad [0], standardPad []]
        (addGamepadState, playingPage))
   = Some [DispatchKey ''keydown'' (bm 0 '' '' 32), DispatchKey ''keyup'' (bm 0 '' '' 32)]"
  by code_simp

end
